theory Spec2Isabelle
  imports Complex_Main "HOL-Library.Sublist" "HOL-Library.AList"
begin

section \<open>Python values\<close>

text \<open>
  A Python \<open>str\<close> is a sequence of Unicode code points, so it is modelled as a list of
  natural numbers: slicing and \<open>in\<close> count code points, as in the source. ASCII
  literals are written with \<open>asc\<close>; other literals are given by their code points.
\<close>

type_synonym pystr = "nat list"

definition asc :: "string \<Rightarrow> pystr" where
  "asc s = map of_char s"

datatype error = ValueError | IndexError | KeyError | ZeroDivisionError

text \<open>
  A cell of a text column of the roster: a string, the float NaN that pandas puts in an
  empty spreadsheet cell, or Python's \<open>None\<close>.
\<close>

datatype cell = Str pystr | NaN | PyNone

fun isna :: "cell \<Rightarrow> bool" where
  "isna (Str s) = False"
| "isna NaN = True"
| "isna PyNone = True"

fun py_str :: "cell \<Rightarrow> pystr" where
  "py_str (Str s) = s"
| "py_str NaN = asc ''nan''"
| "py_str PyNone = asc ''None''"

text \<open>\<open>sub in s\<close> on strings: \<open>sub\<close> occurs in \<open>s\<close> as a contiguous run.\<close>

fun py_in :: "pystr \<Rightarrow> pystr \<Rightarrow> bool" where
  "py_in sub [] = (sub = [])"
| "py_in sub (c # cs) = (prefix sub (c # cs) \<or> py_in sub cs)"

text \<open>A row handed to a function by \<open>DataFrame.apply(axis=1)\<close>: column name to cell.\<close>

type_synonym row = "pystr \<rightharpoonup> cell"

section \<open>Field classifier: institution tier\<close>

definition col_institution_category :: pystr where
  "col_institution_category =
     [0x6700, 0x9AD8, 0x5B66, 0x5386, 0x6BD5, 0x4E1A, 0x9662, 0x6821, 0x7C7B, 0x522B]"

definition s_overseas :: pystr where
  "s_overseas = [0x6D77, 0x5916, 0x9662, 0x6821]"

definition s_qs1_50 :: pystr where
  "s_qs1_50 = asc ''QS1-50''"

definition s_qs100 :: pystr where
  "s_qs100 = asc ''QS100''"

definition s_other_overseas :: pystr where
  "s_other_overseas = [0x5176, 0x4ED6, 0x6D77, 0x5916, 0x9662, 0x6821]"

definition s_c9 :: pystr where
  "s_c9 = asc ''C9'' @ [0x8054, 0x76DF]"

definition s_other :: pystr where
  "s_other = [0x5176, 0x4ED6]"

definition categories :: "pystr list" where
  "categories =
     [s_c9,
      asc ''985'',
      asc ''211'',
      [0x8F68, 0x9053, 0x4EA4, 0x901A, 0x5408, 0x4F5C, 0x9662, 0x6821],
      [0x4F18, 0x52BF, 0x5B66, 0x79D1, 0x9662, 0x6821],
      [0x6E56, 0x5357, 0x7701, 0x77E5, 0x540D, 0x9AD8, 0x6821],
      [0x521B, 0x65B0, 0x578B, 0x5927, 0x5B66],
      [0x5176, 0x4ED6, 0x7B7E, 0x5B57, 0x589E, 0x8865, 0x9662, 0x6821]]"

text \<open>The loop \<open>for category in categories: if category in institution_category: return category\<close>.\<close>

fun first_category :: "pystr list \<Rightarrow> pystr \<Rightarrow> pystr option" where
  "first_category [] institution_category = None"
| "first_category (category # rest) institution_category =
     (if py_in category institution_category then Some category
      else first_category rest institution_category)"

definition classify_institution :: "row \<Rightarrow> pystr" where
  "classify_institution row =
     (let institution_category =
            py_str (case row col_institution_category of Some v \<Rightarrow> v | None \<Rightarrow> Str [])
      in if py_in s_overseas institution_category then
           (if py_in s_qs1_50 institution_category then s_qs1_50
            else if py_in s_qs100 institution_category then s_qs100
            else s_other_overseas)
         else (case first_category categories institution_category of
                 Some category \<Rightarrow> category
               | None \<Rightarrow> s_other))"

section \<open>Python's \<open>int\<close> on strings\<close>

text \<open>
  \<open>int(s)\<close> in base 10, as CPython 3.11 parses it: white space is stripped at both ends,
  one sign is allowed, then come decimal digits with single underscores allowed between
  digits. Any Unicode decimal digit counts (Unicode 14.0: sixty-six runs of ten code
  points, listed by their zero). A string with more than 4300 digits is refused. Every
  refusal is a \<open>ValueError\<close>.
\<close>

definition int_space :: "nat \<Rightarrow> bool" where
  "int_space c \<longleftrightarrow>
     (9 \<le> c \<and> c \<le> 13) \<or> c = 32 \<or> c = 133 \<or> c = 160 \<or> c = 5760
     \<or> (8192 \<le> c \<and> c \<le> 8202) \<or> c = 8232 \<or> c = 8233 \<or> c = 8239 \<or> c = 8287
     \<or> c = 12288"

definition decimal_zeros :: "nat list" where
  "decimal_zeros =
     [48, 1632, 1776, 1984, 2406, 2534, 2662, 2790, 2918, 3046, 3174, 3302, 3430, 3558,
      3664, 3792, 3872, 4160, 4240, 6112, 6160, 6470, 6608, 6784, 6800, 6992, 7088, 7232,
      7248, 42528, 43216, 43264, 43472, 43504, 43600, 44016, 65296, 66720, 68912, 69734,
      69872, 69942, 70096, 70384, 70736, 70864, 71248, 71360, 71472, 71904, 72016, 72784,
      73040, 73120, 92768, 92864, 93008, 120782, 120792, 120802, 120812, 120822, 123200,
      123632, 125264, 130032]"

definition decimal_digit :: "nat \<Rightarrow> nat option" where
  "decimal_digit c =
     (case find (\<lambda>z. z \<le> c \<and> c < z + 10) decimal_zeros of
        Some z \<Rightarrow> Some (c - z)
      | None \<Rightarrow> None)"

fun parse_digits :: "pystr \<Rightarrow> nat list option" where
  "parse_digits [] = None"
| "parse_digits (c # cs) =
     (case decimal_digit c of
        None \<Rightarrow> None
      | Some d \<Rightarrow>
          (case cs of
             [] \<Rightarrow> Some [d]
           | c' # cs' \<Rightarrow>
               if c' = 95 then map_option ((#) d) (parse_digits cs')
               else map_option ((#) d) (parse_digits cs)))"

definition max_str_digits :: nat where
  "max_str_digits = 4300"

definition py_int :: "pystr \<Rightarrow> error + int" where
  "py_int s =
     (let t = rev (dropWhile int_space (rev (dropWhile int_space s)));
          neg = (t \<noteq> [] \<and> hd t = 45);
          body = (if t \<noteq> [] \<and> (hd t = 45 \<or> hd t = 43) then tl t else t)
      in case parse_digits body of
           None \<Rightarrow> Inl ValueError
         | Some ds \<Rightarrow>
             if length ds > max_str_digits then Inl ValueError
             else Inr ((if neg then - 1 else 1) * foldl (\<lambda>a d. 10 * a + int d) 0 ds))"

section \<open>Sequences\<close>

text \<open>\<open>xs[i]\<close> for a literal index \<open>i \<ge> 0\<close>, and \<open>s.split(sep)\<close> for a one-character \<open>sep\<close>.\<close>

definition py_getitem :: "'a list \<Rightarrow> nat \<Rightarrow> error + 'a" where
  "py_getitem xs i = (if i < length xs then Inr (xs ! i) else Inl IndexError)"

fun py_split :: "nat \<Rightarrow> pystr \<Rightarrow> pystr list" where
  "py_split sep [] = [] # []"
| "py_split sep (c # cs) =
     (if c = sep then [] # py_split sep cs
      else (case py_split sep cs of
              w # ws \<Rightarrow> (c # w) # ws
            | [] \<Rightarrow> [c] # []))"

section \<open>Field classifier: birth cohort\<close>

definition generation_of_year :: "int \<Rightarrow> pystr option" where
  "generation_of_year year =
     (if year \<ge> 2005 then Some (asc ''05'' @ [0x540E])
      else if year \<ge> 2000 then Some (asc ''00'' @ [0x540E])
      else if year \<ge> 1995 then Some (asc ''95'' @ [0x540E])
      else if year \<ge> 1990 then Some (asc ''90'' @ [0x540E])
      else None)"

text \<open>The body of the \<open>try\<close> block: the year is parsed, and a failure is an error value.\<close>

definition generation_try :: "cell \<Rightarrow> error + pystr option" where
  "generation_try birth_date =
     (if isna birth_date \<or> birth_date = Str [] then Inr None
      else
        let birth_str = py_str birth_date;
            year =
              (if py_in (asc ''-'') birth_str then
                 (case py_getitem (py_split 45 birth_str) 0 of
                    Inl e \<Rightarrow> Inl e | Inr seg \<Rightarrow> py_int seg)
               else if py_in (asc ''/'') birth_str then
                 (case py_getitem (py_split 47 birth_str) 0 of
                    Inl e \<Rightarrow> Inl e | Inr seg \<Rightarrow> py_int seg)
               else py_int (take 4 birth_str))
        in case year of
             Inl e \<Rightarrow> Inl e
           | Inr y \<Rightarrow> Inr (generation_of_year y))"

text \<open>\<open>except (ValueError, IndexError): return None\<close>; any other error propagates.\<close>

definition calculate_generation :: "cell \<Rightarrow> error + pystr option" where
  "calculate_generation birth_date =
     (case generation_try birth_date of
        Inl ValueError \<Rightarrow> Inr None
      | Inl IndexError \<Rightarrow> Inr None
      | Inl e \<Rightarrow> Inl e
      | Inr r \<Rightarrow> Inr r)"

section \<open>Field classifier: province\<close>

definition s_unknown :: pystr where
  "s_unknown = [0x672A, 0x77E5]"

definition province_map :: "(pystr \<times> pystr) list" where
  "province_map =
     [([0x6E56, 0x5357, 0x957F, 0x6C99], [0x6E56, 0x5357]),
      ([0x6E56, 0x5357], [0x6E56, 0x5357]),
      ([0x5317, 0x4EAC], [0x5317, 0x4EAC]),
      ([0x4E0A, 0x6D77], [0x4E0A, 0x6D77]),
      ([0x5E7F, 0x4E1C], [0x5E7F, 0x4E1C]),
      ([0x6C5F, 0x82CF], [0x6C5F, 0x82CF]),
      ([0x6D59, 0x6C5F], [0x6D59, 0x6C5F]),
      ([0x5C71, 0x4E1C], [0x5C71, 0x4E1C]),
      ([0x6CB3, 0x5357], [0x6CB3, 0x5357]),
      ([0x56DB, 0x5DDD], [0x56DB, 0x5DDD]),
      ([0x6E56, 0x5317], [0x6E56, 0x5317]),
      ([0x6CB3, 0x5317], [0x6CB3, 0x5317]),
      ([0x5B89, 0x5FBD], [0x5B89, 0x5FBD]),
      ([0x798F, 0x5EFA], [0x798F, 0x5EFA]),
      ([0x6C5F, 0x897F], [0x6C5F, 0x897F]),
      ([0x8FBD, 0x5B81], [0x8FBD, 0x5B81]),
      ([0x9655, 0x897F], [0x9655, 0x897F]),
      ([0x5C71, 0x897F], [0x5C71, 0x897F]),
      ([0x91CD, 0x5E86], [0x91CD, 0x5E86]),
      ([0x5929, 0x6D25], [0x5929, 0x6D25]),
      ([0x4E91, 0x5357], [0x4E91, 0x5357]),
      ([0x8D35, 0x5DDE], [0x8D35, 0x5DDE]),
      ([0x5E7F, 0x897F], [0x5E7F, 0x897F]),
      ([0x6D77, 0x5357], [0x6D77, 0x5357]),
      ([0x7518, 0x8083], [0x7518, 0x8083]),
      ([0x9752, 0x6D77], [0x9752, 0x6D77]),
      ([0x5B81, 0x590F], [0x5B81, 0x590F]),
      ([0x65B0, 0x7586], [0x65B0, 0x7586]),
      ([0x897F, 0x85CF], [0x897F, 0x85CF]),
      ([0x5185, 0x8499, 0x53E4], [0x5185, 0x8499, 0x53E4]),
      ([0x9ED1, 0x9F99, 0x6C5F], [0x9ED1, 0x9F99, 0x6C5F]),
      ([0x5409, 0x6797], [0x5409, 0x6797]),
      ([0x672A, 0x77E5, 0x5730, 0x533A], [0x5176, 0x4ED6])]"

text \<open>The loop \<open>for full_name, province in province_map.items(): if full_name in location_str: return province\<close>.\<close>

fun first_province :: "(pystr \<times> pystr) list \<Rightarrow> pystr \<Rightarrow> pystr option" where
  "first_province [] location_str = None"
| "first_province ((full_name, province) # rest) location_str =
     (if py_in full_name location_str then Some province
      else first_province rest location_str)"

definition extract_province :: "cell \<Rightarrow> error + pystr" where
  "extract_province location =
     (if isna location \<or> location = Str [] then Inr s_unknown
      else
        let location_str = py_str location in
        case map_of province_map location_str of
          Some province \<Rightarrow> Inr province
        | None \<Rightarrow>
            if py_in (asc ''-'') location_str then
              (case py_getitem (py_split 45 location_str) 0 of
                 Inl e \<Rightarrow> Inl e
               | Inr province_part \<Rightarrow>
                   (case map_of province_map province_part of
                      Some province \<Rightarrow> Inr province
                    | None \<Rightarrow> Inr province_part))
            else
              (case first_province province_map location_str of
                 Some province \<Rightarrow> Inr province
               | None \<Rightarrow> Inr location_str))"

section \<open>Data frames\<close>

text \<open>
  A pandas \<open>DataFrame\<close>: the number of rows and the columns in order, each a name with
  its cells. \<open>df[name]\<close> raises \<open>KeyError\<close> for a missing column; \<open>df[name] = values\<close>
  replaces a column of that name where it stands, or appends a new one. The columns
  modelled are text columns (pandas' object dtype, on which the \<open>.str\<close> accessor is
  defined); \<open>wf_df\<close> is the invariant of a frame: distinct column names, and every
  column as long as the frame.
\<close>

record dataframe =
  nrows :: nat
  columns :: "(pystr \<times> cell list) list"

definition wf_df :: "dataframe \<Rightarrow> bool" where
  "wf_df df \<longleftrightarrow>
     distinct (map fst (columns df)) \<and> list_all (\<lambda>c. length (snd c) = nrows df) (columns df)"

definition df_getitem :: "dataframe \<Rightarrow> pystr \<Rightarrow> error + cell list" where
  "df_getitem df col =
     (case map_of (columns df) col of None \<Rightarrow> Inl KeyError | Some vs \<Rightarrow> Inr vs)"

definition df_setitem :: "dataframe \<Rightarrow> pystr \<Rightarrow> cell list \<Rightarrow> dataframe" where
  "df_setitem df col vs = df\<lparr>columns := AList.update col vs (columns df)\<rparr>"

definition row_at :: "dataframe \<Rightarrow> nat \<Rightarrow> row" where
  "row_at df i = (\<lambda>col. map_option (\<lambda>vs. vs ! i) (map_of (columns df) col))"

text \<open>\<open>df.apply(f, axis=1)\<close> and \<open>series.apply(f)\<close>; the first error raised by \<open>f\<close> ends the call.\<close>

definition apply_rows :: "(row \<Rightarrow> 'a) \<Rightarrow> dataframe \<Rightarrow> 'a list" where
  "apply_rows f df = map (\<lambda>i. f (row_at df i)) [0..<nrows df]"

fun apply_cells :: "(cell \<Rightarrow> error + 'a) \<Rightarrow> cell list \<Rightarrow> error + 'a list" where
  "apply_cells f [] = Inr []"
| "apply_cells f (x # xs) =
     (case f x of
        Inl e \<Rightarrow> Inl e
      | Inr y \<Rightarrow> (case apply_cells f xs of Inl e \<Rightarrow> Inl e | Inr ys \<Rightarrow> Inr (y # ys)))"

text \<open>
  Data frames are mutable objects. The store holds every live frame; a reference is an
  index into it. \<open>df.copy()\<close> allocates a new frame with the same contents.
\<close>

type_synonym store = "dataframe list"

definition df_copy :: "store \<Rightarrow> nat \<Rightarrow> store \<times> nat" where
  "df_copy s r = (s @ [s ! r], length s)"

definition store_setitem :: "store \<Rightarrow> nat \<Rightarrow> pystr \<Rightarrow> cell list \<Rightarrow> store" where
  "store_setitem s r col vs = s[r := df_setitem (s ! r) col vs]"

section \<open>Enrichment stage\<close>

definition col_origin :: pystr where
  "col_origin = [0x7C4D, 0x8D2F]"

definition col_birth_date :: pystr where
  "col_birth_date = [0x51FA, 0x751F, 0x65E5, 0x671F]"

definition col_is_overseas :: pystr where
  "col_is_overseas = [0x662F, 0x5426, 0x4E3A, 0x6D77, 0x5916, 0x9662, 0x6821]"

definition col_tier :: pystr where
  "col_tier = col_institution_category @ asc ''-'' @ [0x5206, 0x7C7B] @ asc ''1''"

definition col_province :: pystr where
  "col_province = [0x7C4D, 0x8D2F] @ asc ''-'' @ [0x7701, 0x4EFD]"

definition col_generation :: pystr where
  "col_generation = [0x51FA, 0x751F, 0x5E74, 0x4EE3]"

definition s_yes :: pystr where
  "s_yes = [0x662F]"

definition s_no :: pystr where
  "s_no = [0x5426]"

definition is_overseas :: "cell \<Rightarrow> cell" where
  "is_overseas x = Str (if py_in s_overseas (py_str x) then s_yes else s_no)"

definition cell_of_option :: "pystr option \<Rightarrow> cell" where
  "cell_of_option r = (case r of None \<Rightarrow> PyNone | Some t \<Rightarrow> Str t)"

definition enhance_data :: "store \<Rightarrow> nat \<Rightarrow> error + (store \<times> nat)" where
  "enhance_data s df =
     (let (s0, df_enhanced) = df_copy s df in
      case df_getitem (s0 ! df_enhanced) col_institution_category of
        Inl e \<Rightarrow> Inl e
      | Inr tags \<Rightarrow>
      let s1 = store_setitem s0 df_enhanced col_is_overseas (map is_overseas tags);
          s2 = store_setitem s1 df_enhanced col_tier
                 (map Str (apply_rows classify_institution (s1 ! df_enhanced)))
      in
      case df_getitem (s2 ! df_enhanced) col_origin of
        Inl e \<Rightarrow> Inl e
      | Inr origins \<Rightarrow>
      case apply_cells extract_province origins of
        Inl e \<Rightarrow> Inl e
      | Inr provinces \<Rightarrow>
      let s3 = store_setitem s2 df_enhanced col_province (map Str provinces) in
      case df_getitem (s3 ! df_enhanced) col_birth_date of
        Inl e \<Rightarrow> Inl e
      | Inr births \<Rightarrow>
      case apply_cells calculate_generation births of
        Inl e \<Rightarrow> Inl e
      | Inr generations \<Rightarrow>
      Inr (store_setitem s3 df_enhanced col_generation (map cell_of_option generations),
           df_enhanced))"

section \<open>Floating point\<close>

text \<open>
  A finite binary64 value is a pair \<open>(m, e)\<close> standing for \<open>m * 2 ^ e\<close>. Operations
  compute the exact result and round it to 53 bits, ties to even, as IEEE 754 does
  (subnormals included; results beyond the largest double do not arise here, every
  quotient being at most one). \<open>round(x, 1)\<close> rounds the exact value of \<open>x\<close> to one
  decimal, ties to even, and returns the double nearest to that decimal; the model
  returns the decimal in tenths.
\<close>

type_synonym pyfloat = "int \<times> int"

fun bit_length :: "nat \<Rightarrow> nat" where
  "bit_length n = (if n = 0 then 0 else Suc (bit_length (n div 2)))"

declare bit_length.simps [simp del]

definition div_half_even :: "int \<Rightarrow> int \<Rightarrow> int" where
  "div_half_even p q =
     (let f = p div q; r = p mod q
      in if 2 * r < q then f
         else if 2 * r > q then f + 1
         else if even f then f else f + 1)"

text \<open>The double nearest to \<open>p / q\<close>, for \<open>p > 0\<close> and \<open>q > 0\<close>.\<close>

definition round_ratio :: "int \<Rightarrow> int \<Rightarrow> pyfloat" where
  "round_ratio p q =
     (let k = int (bit_length (nat p)) - int (bit_length (nat q));
          l = (if (if k \<ge> 0 then q * 2 ^ nat k \<le> p else q \<le> p * 2 ^ nat (- k)) then k else k - 1);
          e = max (l - 52) (- 1074)
      in if e \<ge> 0 then (div_half_even p (q * 2 ^ nat e), e)
         else (div_half_even (p * 2 ^ nat (- e)) q, e))"

definition float_times_int :: "pyfloat \<Rightarrow> int \<Rightarrow> pyfloat" where
  "float_times_int x n =
     (let (m, e) = x
      in if m = 0 then (0, 0)
         else if e \<ge> 0 then round_ratio (m * n * 2 ^ nat e) 1
         else round_ratio (m * n) (2 ^ nat (- e)))"

definition py_truediv :: "nat \<Rightarrow> nat \<Rightarrow> error + pyfloat" where
  "py_truediv a b =
     (if b = 0 then Inl ZeroDivisionError
      else if a = 0 then Inr (0, 0)
      else Inr (round_ratio (int a) (int b)))"

definition py_round1 :: "pyfloat \<Rightarrow> int" where
  "py_round1 x =
     (let (m, e) = x
      in if e \<ge> 0 then 10 * m * 2 ^ nat e
         else div_half_even (10 * m) (2 ^ nat (- e)))"

text \<open>\<open>round(v / total_count * 100, 1)\<close>, in tenths.\<close>

definition percentage_of :: "nat \<Rightarrow> nat \<Rightarrow> error + int" where
  "percentage_of v total_count =
     (case py_truediv v total_count of
        Inl e \<Rightarrow> Inl e
      | Inr q \<Rightarrow> Inr (py_round1 (float_times_int q 100)))"

section \<open>Aggregator\<close>

text \<open>
  \<open>series.value_counts()\<close>: the distinct non-null values with their numbers of
  occurrences, by descending count; values with equal counts stay in the order of their
  first appearance (no property below depends on the order among equal counts). The
  counts reach the comprehension as Python integers, through \<open>to_dict\<close>.
\<close>

fun first_seen :: "'a list \<Rightarrow> 'a list" where
  "first_seen [] = []"
| "first_seen (x # xs) = x # first_seen (filter (\<lambda>y. y \<noteq> x) xs)"

definition non_null :: "cell list \<Rightarrow> pystr list" where
  "non_null vs = concat (map (\<lambda>c. case c of Str t \<Rightarrow> [t] | NaN \<Rightarrow> [] | PyNone \<Rightarrow> []) vs)"

definition value_counts :: "cell list \<Rightarrow> (pystr \<times> nat) list" where
  "value_counts vs =
     (let ks = non_null vs
      in sort_key (\<lambda>kv. - int (snd kv)) (map (\<lambda>k. (k, count_list ks k)) (first_seen ks)))"

record entry =
  name :: pystr
  count :: nat
  percentage :: int

text \<open>
  The comprehension over \<open>counts.items()\<close>. Its filter \<open>k is not None\<close> passes every
  key, the keys being strings.
\<close>

fun entries_of :: "nat \<Rightarrow> (pystr \<times> nat) list \<Rightarrow> error + entry list" where
  "entries_of total_count [] = Inr []"
| "entries_of total_count ((k, v) # rest) =
     (case percentage_of v total_count of
        Inl e \<Rightarrow> Inl e
      | Inr p \<Rightarrow>
          (case entries_of total_count rest of
             Inl e \<Rightarrow> Inl e
           | Inr es \<Rightarrow> Inr (\<lparr>name = k, count = v, percentage = p\<rparr> # es)))"

definition col_status :: pystr where
  "col_status = [0x5E94, 0x8058, 0x72B6, 0x6001]"

definition s_bilateral :: pystr where
  "s_bilateral = [0x4E24, 0x65B9]"

definition s_trilateral :: pystr where
  "s_trilateral = [0x4E09, 0x65B9]"

definition col_school :: pystr where
  "col_school = [0x6700, 0x9AD8, 0x5B66, 0x5386, 0x6BD5, 0x4E1A, 0x9662, 0x6821]"

definition col_political :: pystr where
  "col_political = [0x653F, 0x6CBB, 0x9762, 0x8C8C]"

definition col_gender :: pystr where
  "col_gender = [0x6027, 0x522B]"

definition col_education :: pystr where
  "col_education = [0x6700, 0x9AD8, 0x5B66, 0x5386]"

definition col_major_type :: pystr where
  "col_major_type = [0x4E13, 0x4E1A, 0x7C7B, 0x578B]"

definition dimensions :: "(string \<times> pystr) list" where
  "dimensions =
     [(''political_status'', col_political),
      (''gender'', col_gender),
      (''age_distribution'', col_generation),
      (''education'', col_education),
      (''institution_category'', col_tier),
      (''major_type'', col_major_type),
      (''province_distribution'', col_province)]"

text \<open>\<open>series.str.contains(marker, na=False)\<close> on one cell; the markers have no regex operator.\<close>

definition str_contains :: "pystr \<Rightarrow> cell \<Rightarrow> bool" where
  "str_contains marker c = (case c of Str t \<Rightarrow> py_in marker t | NaN \<Rightarrow> False | PyNone \<Rightarrow> False)"

fun dimension_loop ::
  "dataframe \<Rightarrow> nat \<Rightarrow> (string \<times> pystr) list \<Rightarrow> error + (string \<times> entry list) list" where
  "dimension_loop df total_count [] = Inr []"
| "dimension_loop df total_count ((stat_key, column_name) # rest) =
     (case df_getitem df column_name of
        Inl e \<Rightarrow> Inl e
      | Inr vs \<Rightarrow>
          (case entries_of total_count (value_counts vs) of
             Inl e \<Rightarrow> Inl e
           | Inr es \<Rightarrow>
               (case dimension_loop df total_count rest of
                  Inl e \<Rightarrow> Inl e
                | Inr ds \<Rightarrow> Inr ((stat_key, es) # ds))))"

definition s_tsinghua :: pystr where
  "s_tsinghua = [0x6E05, 0x534E, 0x5927, 0x5B66]"

definition s_peking :: pystr where
  "s_peking = [0x5317, 0x4EAC, 0x5927, 0x5B66]"

definition special_schools :: "(pystr \<times> pystr) list" where
  "special_schools =
     map (\<lambda>n. (n, n))
       [s_tsinghua,
        s_peking,
        [0x540C, 0x6D4E, 0x5927, 0x5B66],
        [0x4E2D, 0x5357, 0x5927, 0x5B66],
        [0x5317, 0x4EAC, 0x4EA4, 0x901A, 0x5927, 0x5B66],
        [0x897F, 0x5357, 0x4EA4, 0x901A, 0x5927, 0x5B66],
        [0x5170, 0x5DDE, 0x4EA4, 0x901A, 0x5927, 0x5B66],
        [0x5927, 0x8FDE, 0x4EA4, 0x901A, 0x5927, 0x5B66],
        [0x534E, 0x4E1C, 0x4EA4, 0x901A, 0x5927, 0x5B66]]"

text \<open>The loop \<open>result[display_name] = len(df[df[school_column] == school_name])\<close>.\<close>

fun school_loop ::
  "dataframe \<Rightarrow> (pystr \<times> pystr) list \<Rightarrow> (pystr \<times> int) list \<Rightarrow> error + (pystr \<times> int) list" where
  "school_loop df [] result = Inr result"
| "school_loop df ((display_name, school_name) # rest) result =
     (case df_getitem df col_school of
        Inl e \<Rightarrow> Inl e
      | Inr schools \<Rightarrow>
          school_loop df rest
            (AList.update display_name (int (count_list schools (Str school_name))) result))"

definition calculate_special_institutions :: "dataframe \<Rightarrow> error + (pystr \<times> int) list" where
  "calculate_special_institutions df =
     (case school_loop df special_schools [] of
        Inl e \<Rightarrow> Inl e
      | Inr result \<Rightarrow>
      case df_getitem df col_tier of
        Inl e \<Rightarrow> Inl e
      | Inr tiers \<Rightarrow>
      let c9_total = int (count_list tiers (Str s_c9)) in
      case map_of result s_tsinghua of
        None \<Rightarrow> Inl KeyError
      | Some tsinghua \<Rightarrow>
      case map_of result s_peking of
        None \<Rightarrow> Inl KeyError
      | Some peking \<Rightarrow> Inr (AList.update s_c9 (c9_total - tsinghua - peking) result))"

record statistics =
  total_count :: nat
  bilateral_count :: nat
  trilateral_count :: nat
  distributions :: "(string \<times> entry list) list"
  special_institutions :: "(pystr \<times> int) list"

definition generate_statistics :: "dataframe \<Rightarrow> error + statistics" where
  "generate_statistics df =
     (let total_count = nrows df in
      case df_getitem df col_status of
        Inl e \<Rightarrow> Inl e
      | Inr statuses \<Rightarrow>
      let bilateral = length (filter (str_contains s_bilateral) statuses);
          trilateral = length (filter (str_contains s_trilateral) statuses)
      in
      case dimension_loop df total_count dimensions of
        Inl e \<Rightarrow> Inl e
      | Inr ds \<Rightarrow>
      case calculate_special_institutions df of
        Inl e \<Rightarrow> Inl e
      | Inr special \<Rightarrow>
      Inr \<lparr>total_count = total_count, bilateral_count = bilateral,
           trilateral_count = trilateral, distributions = ds,
           special_institutions = special\<rparr>)"

section \<open>Report composer\<close>

text \<open>
  The report is built by appending to \<open>report\<close>, statement after statement; a
  statement that raises ends the call. An f-string evaluates its parts from left to
  right and joins them. The two readings of the clock are parameters: \<open>current_day\<close>
  and \<open>current_time\<close> are the formatted date and timestamp. The snapshot is the record
  that \<open>generate_statistics\<close> returns, so the key \<open>special_institutions\<close> is always
  present and the test for it always succeeds.
\<close>

fun fstring :: "(error + pystr) list \<Rightarrow> error + pystr" where
  "fstring [] = Inr []"
| "fstring (p # ps) =
     (case p of
        Inl e \<Rightarrow> Inl e
      | Inr t \<Rightarrow> (case fstring ps of Inl e \<Rightarrow> Inl e | Inr r \<Rightarrow> Inr (t @ r)))"

type_synonym step = "pystr \<Rightarrow> error + pystr"

fun run_steps :: "step list \<Rightarrow> pystr \<Rightarrow> error + pystr" where
  "run_steps [] report = Inr report"
| "run_steps (st # sts) report =
     (case st report of Inl e \<Rightarrow> Inl e | Inr report' \<Rightarrow> run_steps sts report')"

definition append_text :: "pystr \<Rightarrow> step" where
  "append_text t report = Inr (report @ t)"

definition append_fstring :: "(error + pystr) list \<Rightarrow> step" where
  "append_fstring parts report =
     (case fstring parts of Inl e \<Rightarrow> Inl e | Inr t \<Rightarrow> Inr (report @ t))"

text \<open>
  Formatting: an integer in decimal, and a percentage (held in tenths) as Python prints
  the float, with one decimal.
\<close>

fun digits :: "nat \<Rightarrow> pystr" where
  "digits n = (if n < 10 then [48 + n] else digits (n div 10) @ [48 + n mod 10])"

declare digits.simps [simp del]

definition str_of_int :: "int \<Rightarrow> pystr" where
  "str_of_int n = (if n < 0 then 45 # digits (nat (- n)) else digits (nat n))"

definition str_of_tenths :: "int \<Rightarrow> pystr" where
  "str_of_tenths t =
     (if t < 0 then [45] else []) @ digits (nat \<bar>t\<bar> div 10) @ [46] @ digits (nat \<bar>t\<bar> mod 10)"

definition process_chart_image :: "pystr \<Rightarrow> pystr" where
  "process_chart_image image_data =
     (if \<not> prefix (asc ''data:image/png;base64,'') image_data
      then asc ''data:image/png;base64,'' @ image_data
      else image_data)"

definition t_title :: pystr where
  "t_title =
     asc ''# 2025'' @ [0x5C4A, 0x6821, 0x56ED, 0x62DB, 0x8058, 0x60C5, 0x51B5, 0x8BF4,
     0x660E, 0x000A, 0x000A]"

definition t_overall_heading :: pystr where
  "t_overall_heading =
     asc ''## '' @ [0x4E00, 0x3001] @ asc ''2025'' @ [0x5C4A, 0x6821, 0x56ED, 0x62DB,
     0x8058, 0x6574, 0x4F53, 0x60C5, 0x51B5, 0x000A, 0x000A]"

definition t_overall_lead :: pystr where
  "t_overall_lead =
     [0x4E3A, 0x6DF1, 0x5165, 0x8D2F, 0x5F7B, 0x4EBA, 0x624D, 0x5DE5, 0x4F5C, 0x4F1A,
     0x8BAE, 0x7CBE, 0x795E, 0xFF0C, 0x63A8, 0x8FDB, 0x96C6, 0x56E2, 0x53CA, 0x516C, 0x53F8,
     0x0022, 0x5341, 0x56DB, 0x4E94, 0x0022, 0x4EBA, 0x529B, 0x8D44, 0x6E90, 0x6218, 0x7565,
     0x89C4, 0x5212, 0x5B9E, 0x65BD, 0xFF0C, 0x6301, 0x7EED, 0x63D0, 0x5347, 0x516C, 0x53F8,
     0x80FD, 0x4E3B, 0x52A8, 0x7275, 0x5F15, 0x4E1A, 0x52A1, 0xFF0C, 0x6EE1, 0x8DB3, 0x516C,
     0x53F8, 0x9AD8, 0x8D28, 0x91CF, 0x5EA6, 0x7684, 0x4EBA, 0x624D, 0x50A8, 0x5907, 0x9700,
     0x6C42, 0xFF0C, 0x4EBA, 0x529B, 0x8D44, 0x6E90, 0x90E8, 0x6839, 0x636E, 0x516C, 0x53F8,
     0x751F, 0x4EA7, 0x7ECF, 0x8425, 0x548C, 0x4EBA, 0x529B, 0x8D44, 0x6E90, 0x89C4, 0x5212,
     0x8981, 0x6C42, 0xFF0C, 0x5236, 0x5B9A] @ asc ''2025'' @ [0x5E74, 0x62DB, 0x8058,
     0x8BA1, 0x5212, 0xFF0C, 0x5E76, 0x6839, 0x636E, 0x8BA1, 0x5212, 0x5728, 0x56FD,
     0x5185] @ asc ''98'' @ [0x6240, 0x76EE, 0x6807, 0x9662, 0x6821, 0x53CA, 0x6D77, 0x5916,
     0x4E13, 0x573A, 0x62DB, 0x8058, 0x4F1A, 0x4E2D, 0x5168, 0x529B, 0x63A8, 0x8FDB, 0x4EBA,
     0x624D, 0x5F15, 0x8FDB, 0x5DE5, 0x4F5C, 0x3002, 0x672C, 0x5C4A, 0x6821, 0x56ED, 0x62DB,
     0x8058, 0xFF0C, 0x622A, 0x6B62]"

definition t_signed_total :: pystr where
  "t_signed_total =
     [0x516C, 0x53F8, 0x7D2F, 0x8BA1, 0x7B7E, 0x7EA6]"

definition t_of_which_bilateral :: pystr where
  "t_of_which_bilateral =
     [0x4EBA, 0xFF0C, 0x5176, 0x4E2D, 0xFF0C, 0x4E24, 0x65B9, 0x534F, 0x8BAE]"

definition t_trilateral_agreements :: pystr where
  "t_trilateral_agreements =
     [0x4EBA, 0xFF0C, 0x4E09, 0x65B9, 0x534F, 0x8BAE]"

definition t_people_stop :: pystr where
  "t_people_stop =
     [0x4EBA, 0x3002, 0x000A, 0x000A]"

definition t_signees_heading :: pystr where
  "t_signees_heading =
     asc ''## '' @ [0x4E8C, 0x3001] @ asc ''2025'' @ [0x5C4A, 0x6821, 0x56ED, 0x62DB,
     0x8058, 0x5F15, 0x8FDB, 0x4EBA, 0x5458, 0x60C5, 0x51B5, 0x000A, 0x000A]"

definition t_share :: pystr where
  "t_share =
     [0x4EBA, 0xFF0C, 0x5360, 0x6BD4]"

definition t_stop :: pystr where
  "t_stop =
     asc ''%'' @ [0x3002, 0x000A, 0x000A]"

definition t_political_heading :: pystr where
  "t_political_heading =
     asc ''### 1. '' @ [0x653F, 0x6CBB, 0x9762, 0x8C8C, 0x5206, 0x5E03, 0x000A, 0x000A]"

definition t_political_league :: pystr where
  "t_political_league =
     asc ''2025'' @ [0x5C4A, 0x6821, 0x56ED, 0x62DB, 0x8058, 0x5F15, 0x8FDB, 0x4EBA, 0x5458,
     0x4E2D, 0xFF0C, 0x5171, 0x9752, 0x56E2, 0x5458]"

definition t_political_party :: pystr where
  "t_political_party =
     asc ''%'' @ [0xFF1B, 0x4E2D, 0x56FD, 0x5171, 0x4EA7, 0x515A, 0x5458]"

definition t_political_masses :: pystr where
  "t_political_masses =
     asc ''%'' @ [0xFF1B, 0x7FA4, 0x4F17]"

definition t_political_image :: pystr where
  "t_political_image =
     asc ''!['' @ [0x653F, 0x6CBB, 0x9762, 0x8C8C, 0x5206, 0x5E03, 0x56FE] @ asc ''](''"

definition t_image_close :: pystr where
  "t_image_close =
     asc '')'' @ [0x000A, 0x000A]"

definition t_gender_heading :: pystr where
  "t_gender_heading =
     asc ''### 2. '' @ [0x6027, 0x522B, 0x5206, 0x5E03, 0x000A, 0x000A]"

definition t_gender_male :: pystr where
  "t_gender_male =
     asc ''2025'' @ [0x5C4A, 0x6821, 0x56ED, 0x62DB, 0x8058, 0x5F15, 0x8FDB, 0x4EBA, 0x5458,
     0x4E2D, 0xFF0C, 0x7537]"

definition t_gender_female :: pystr where
  "t_gender_female =
     asc ''%'' @ [0xFF1B, 0x5973]"

definition t_gender_image :: pystr where
  "t_gender_image =
     asc ''!['' @ [0x6027, 0x522B, 0x5206, 0x5E03, 0x56FE] @ asc ''](''"

definition t_age_heading :: pystr where
  "t_age_heading =
     asc ''### 3. '' @ [0x5E74, 0x9F84, 0x5206, 0x5E03, 0x000A, 0x000A]"

definition t_age_00 :: pystr where
  "t_age_00 =
     asc ''2025'' @ [0x5C4A, 0x6821, 0x56ED, 0x62DB, 0x8058, 0x5F15, 0x8FDB, 0x4EBA, 0x5458,
     0x4E2D, 0xFF0C] @ asc ''00'' @ [0x540E]"

definition t_age_95 :: pystr where
  "t_age_95 =
     asc ''%'' @ [0xFF1B] @ asc ''95'' @ [0x540E]"

definition t_age_90 :: pystr where
  "t_age_90 =
     asc ''%'' @ [0xFF1B] @ asc ''90'' @ [0x540E]"

definition t_age_image :: pystr where
  "t_age_image =
     asc ''!['' @ [0x5E74, 0x9F84, 0x5206, 0x5E03, 0x56FE] @ asc ''](''"

definition t_education_heading :: pystr where
  "t_education_heading =
     asc ''### 4. '' @ [0x5B66, 0x5386, 0x5206, 0x5E03, 0x000A, 0x000A]"

definition t_education_master :: pystr where
  "t_education_master =
     asc ''2025'' @ [0x5C4A, 0x6821, 0x56ED, 0x62DB, 0x8058, 0x5F15, 0x8FDB, 0x4EBA, 0x5458,
     0x4E2D, 0xFF0C, 0x7855, 0x58EB, 0x7814, 0x7A76, 0x751F]"

definition t_education_bachelor :: pystr where
  "t_education_bachelor =
     asc ''%'' @ [0xFF1B, 0x672C, 0x79D1]"

definition t_education_doctor :: pystr where
  "t_education_doctor =
     asc ''%'' @ [0xFF1B, 0x535A, 0x58EB, 0x7814, 0x7A76, 0x751F]"

definition t_education_image :: pystr where
  "t_education_image =
     asc ''!['' @ [0x5B66, 0x5386, 0x5206, 0x5E03, 0x56FE] @ asc ''](''"

definition t_institution_heading :: pystr where
  "t_institution_heading =
     asc ''### 5. '' @ [0x9662, 0x6821, 0x7C7B, 0x522B, 0x5206, 0x5E03, 0x000A, 0x000A]"

definition t_institution_211 :: pystr where
  "t_institution_211 =
     asc ''2025'' @ [0x5C4A, 0x6821, 0x56ED, 0x62DB, 0x8058, 0x5F15, 0x8FDB, 0x4EBA, 0x5458,
     0x4E2D, 0xFF0C] @ asc ''211'' @ [0x9AD8, 0x6821]"

definition t_institution_985 :: pystr where
  "t_institution_985 =
     asc ''%'' @ [0xFF1B] @ asc ''985'' @ [0x9AD8, 0x6821]"

definition t_institution_this :: pystr where
  "t_institution_this =
     asc ''%'' @ [0xFF1B, 0x672C, 0x5206, 0x7C7B, 0x9662, 0x6821]"

definition t_institution_image :: pystr where
  "t_institution_image =
     asc ''!['' @ [0x9662, 0x6821, 0x7C7B, 0x522B, 0x5206, 0x5E03, 0x56FE] @ asc ''](''"

definition t_special_heading :: pystr where
  "t_special_heading =
     asc ''#### '' @ [0x91CD, 0x70B9, 0x9662, 0x6821, 0x7EDF, 0x8BA1, 0x000A, 0x000A]"

definition t_special_lead :: pystr where
  "t_special_lead =
     [0x5F15, 0x8FDB, 0x91CD, 0x70B9, 0x9662, 0x6821, 0x4EBA, 0x5458, 0x60C5, 0x51B5,
     0x5982, 0x4E0B, 0xFF1A]"

definition t_c9_label :: pystr where
  "t_c9_label =
     asc ''C9'' @ [0x8054, 0x76DF, 0xFF08, 0x9664, 0x6E05, 0x534E, 0x5317, 0x5927, 0x5916,
     0xFF09]"

definition t_people_comma :: pystr where
  "t_people_comma =
     [0x4EBA, 0x3001]"

definition t_comma :: pystr where
  "t_comma =
     [0x3001]"

definition t_full_stop :: pystr where
  "t_full_stop =
     [0x3002, 0x000A, 0x000A]"

definition t_blank :: pystr where
  "t_blank =
     [0x000A, 0x000A]"

definition t_major_heading :: pystr where
  "t_major_heading =
     asc ''### 6. '' @ [0x4E13, 0x4E1A, 0x7C7B, 0x578B, 0x5206, 0x5E03, 0x000A, 0x000A]"

definition t_among :: pystr where
  "t_among =
     asc ''2025'' @ [0x5C4A, 0x6821, 0x56ED, 0x62DB, 0x8058, 0x5F15, 0x8FDB, 0x4EBA, 0x5458,
     0x4E2D, 0xFF0C]"

definition t_semicolon :: pystr where
  "t_semicolon =
     asc ''%'' @ [0xFF1B]"

definition t_no_major :: pystr where
  "t_no_major =
     [0x6682, 0x65E0, 0x4E13, 0x4E1A, 0x7C7B, 0x578B, 0x6570, 0x636E, 0x3002, 0x000A,
     0x000A]"

definition t_major_image :: pystr where
  "t_major_image =
     asc ''!['' @ [0x4E13, 0x4E1A, 0x7C7B, 0x578B, 0x5206, 0x5E03, 0x56FE] @ asc ''](''"

definition t_province_heading :: pystr where
  "t_province_heading =
     asc ''### 7. '' @ [0x7C4D, 0x8D2F, 0x5206, 0x5E03, 0x000A, 0x000A]"

definition t_no_province :: pystr where
  "t_no_province =
     [0x6682, 0x65E0, 0x7C4D, 0x8D2F, 0x5206, 0x5E03, 0x6570, 0x636E, 0x3002, 0x000A,
     0x000A]"

definition t_province_image :: pystr where
  "t_province_image =
     asc ''!['' @ [0x7C4D, 0x8D2F, 0x5206, 0x5E03, 0x56FE] @ asc ''](''"

definition t_rule :: pystr where
  "t_rule =
     asc ''---'' @ [0x000A]"

definition t_generated_at :: pystr where
  "t_generated_at =
     asc ''*'' @ [0x62A5, 0x544A, 0x751F, 0x6210, 0x65F6, 0x95F4, 0xFF1A]"

definition t_star :: pystr where
  "t_star =
     asc ''*''"

text \<open>\<open>data[i]['name']\<close>, \<open>data[i]['count']\<close> and \<open>data[i]['percentage']\<close> inside an f-string.\<close>

definition item_name :: "entry list \<Rightarrow> nat \<Rightarrow> error + pystr" where
  "item_name data i = (case py_getitem data i of Inl e \<Rightarrow> Inl e | Inr x \<Rightarrow> Inr (name x))"

definition item_count :: "entry list \<Rightarrow> nat \<Rightarrow> error + pystr" where
  "item_count data i =
     (case py_getitem data i of Inl e \<Rightarrow> Inl e | Inr x \<Rightarrow> Inr (str_of_int (int (count x))))"

definition item_percentage :: "entry list \<Rightarrow> nat \<Rightarrow> error + pystr" where
  "item_percentage data i =
     (case py_getitem data i of Inl e \<Rightarrow> Inl e | Inr x \<Rightarrow> Inr (str_of_tenths (percentage x)))"

definition political_text :: "entry list \<Rightarrow> (error + pystr) list" where
  "political_text political_data =
     [Inr t_political_league, item_count political_data 0, Inr t_share,
      item_percentage political_data 0,
      Inr t_political_party, item_count political_data 1, Inr t_share,
      item_percentage political_data 1,
      Inr t_political_masses, item_count political_data 2, Inr t_share,
      item_percentage political_data 2, Inr t_stop]"

definition gender_text :: "entry list \<Rightarrow> (error + pystr) list" where
  "gender_text gender_data =
     [Inr t_gender_male, item_count gender_data 0, Inr t_share, item_percentage gender_data 0,
      Inr t_gender_female, item_count gender_data 1, Inr t_share,
      item_percentage gender_data 1, Inr t_stop]"

definition age_text :: "entry list \<Rightarrow> (error + pystr) list" where
  "age_text age_data =
     [Inr t_age_00, item_count age_data 0, Inr t_share, item_percentage age_data 0,
      Inr t_age_95, item_count age_data 1, Inr t_share, item_percentage age_data 1,
      Inr t_age_90, item_count age_data 2, Inr t_share, item_percentage age_data 2,
      Inr t_stop]"

definition education_text :: "entry list \<Rightarrow> (error + pystr) list" where
  "education_text education_data =
     [Inr t_education_master, item_count education_data 0, Inr t_share,
      item_percentage education_data 0,
      Inr t_education_bachelor, item_count education_data 1, Inr t_share,
      item_percentage education_data 1,
      Inr t_education_doctor, item_count education_data 2, Inr t_share,
      item_percentage education_data 2, Inr t_stop]"

definition institution_text :: "entry list \<Rightarrow> (error + pystr) list" where
  "institution_text institution_data =
     [Inr t_institution_211, item_count institution_data 0, Inr t_share,
      item_percentage institution_data 0,
      Inr t_institution_985, item_count institution_data 1, Inr t_share,
      item_percentage institution_data 1,
      Inr t_institution_this, item_count institution_data 2, Inr t_share,
      item_percentage institution_data 2, Inr t_stop]"

text \<open>
  The major-type and province sections test the length of the list and shorten the
  sentence; \<open>ranked_text\<close> is their common shape, \<open>none\<close> the placeholder.
\<close>

definition ranked_item :: "entry list \<Rightarrow> nat \<Rightarrow> (error + pystr) list" where
  "ranked_item data i =
     [item_name data i, item_count data i, Inr t_share, item_percentage data i]"

definition ranked_text :: "pystr \<Rightarrow> entry list \<Rightarrow> (error + pystr) list" where
  "ranked_text none data =
     (if length data \<ge> 3 then
        Inr t_among # ranked_item data 0 @ Inr t_semicolon # ranked_item data 1
        @ Inr t_semicolon # ranked_item data 2 @ [Inr t_stop]
      else if length data \<ge> 2 then
        Inr t_among # ranked_item data 0 @ Inr t_semicolon # ranked_item data 1 @ [Inr t_stop]
      else if length data \<ge> 1 then
        Inr t_among # ranked_item data 0 @ [Inr t_stop]
      else [Inr none])"

text \<open>\<open>statistics[key]\<close> followed by the section's sentence.\<close>

definition section_step ::
  "statistics \<Rightarrow> string \<Rightarrow> (entry list \<Rightarrow> (error + pystr) list) \<Rightarrow> step" where
  "section_step statistics key sentence report =
     (case map_of (distributions statistics) key of
        None \<Rightarrow> Inl KeyError
      | Some data \<Rightarrow> append_fstring (sentence data) report)"

definition image_step :: "(pystr \<times> pystr) list \<Rightarrow> string \<Rightarrow> pystr \<Rightarrow> step" where
  "image_step processed_images key label report =
     (case map_of processed_images (asc key) of
        None \<Rightarrow> Inr report
      | Some img \<Rightarrow> Inr (report @ label @ img @ t_image_close))"

definition other_schools :: "pystr list" where
  "other_schools =
     [ [0x540C, 0x6D4E, 0x5927, 0x5B66],
      [0x4E2D, 0x5357, 0x5927, 0x5B66],
      [0x5317, 0x4EAC, 0x4EA4, 0x901A, 0x5927, 0x5B66],
      [0x897F, 0x5357, 0x4EA4, 0x901A, 0x5927, 0x5B66],
      [0x5170, 0x5DDE, 0x4EA4, 0x901A, 0x5927, 0x5B66],
      [0x5927, 0x8FDE, 0x4EA4, 0x901A, 0x5927, 0x5B66],
      [0x534E, 0x4E1C, 0x4EA4, 0x901A, 0x5927, 0x5B66]]"

definition special_item :: "(pystr \<times> int) list \<Rightarrow> pystr \<Rightarrow> pystr \<Rightarrow> pystr" where
  "special_item special_data key label =
     (case map_of special_data key of
        None \<Rightarrow> []
      | Some v \<Rightarrow> if v > 0 then label @ str_of_int v @ t_people_comma else [])"

definition special_step :: "(pystr \<times> int) list \<Rightarrow> step" where
  "special_step special_data report =
     (let r = report @ t_special_heading @ t_special_lead
                @ special_item special_data s_tsinghua s_tsinghua
                @ special_item special_data s_peking s_peking
                @ special_item special_data s_c9 t_c9_label
                @ concat (map (\<lambda>school. special_item special_data school school) other_schools)
      in if suffix t_comma r then Inr (butlast r @ t_full_stop) else Inr (r @ t_blank))"

definition generate_markdown_report ::
  "pystr \<Rightarrow> pystr \<Rightarrow> statistics \<Rightarrow> (pystr \<times> pystr) list \<Rightarrow> error + pystr" where
  "generate_markdown_report current_day current_time statistics chart_images =
     (let processed_images = map (\<lambda>(key, image_data). (key, process_chart_image image_data))
                               chart_images
      in run_steps
           [append_text t_title,
            append_text t_overall_heading,
            append_fstring
              [Inr t_overall_lead, Inr current_day, Inr t_signed_total,
               Inr (str_of_int (int (total_count statistics))), Inr t_of_which_bilateral,
               Inr (str_of_int (int (bilateral_count statistics))), Inr t_trilateral_agreements,
               Inr (str_of_int (int (trilateral_count statistics))), Inr t_people_stop],
            append_text t_signees_heading,
            append_text t_political_heading,
            section_step statistics ''political_status'' political_text,
            image_step processed_images ''political_status'' t_political_image,
            append_text t_gender_heading,
            section_step statistics ''gender'' gender_text,
            image_step processed_images ''gender'' t_gender_image,
            append_text t_age_heading,
            section_step statistics ''age_distribution'' age_text,
            image_step processed_images ''age_distribution'' t_age_image,
            append_text t_education_heading,
            section_step statistics ''education'' education_text,
            image_step processed_images ''education'' t_education_image,
            append_text t_institution_heading,
            section_step statistics ''institution_category'' institution_text,
            image_step processed_images ''institution_category'' t_institution_image,
            special_step (special_institutions statistics),
            append_text t_major_heading,
            section_step statistics ''major_type'' (ranked_text t_no_major),
            image_step processed_images ''major_type'' t_major_image,
            append_text t_province_heading,
            section_step statistics ''province_distribution'' (ranked_text t_no_province),
            image_step processed_images ''province_distribution'' t_province_image,
            append_text t_rule,
            append_fstring [Inr t_generated_at, Inr current_time, Inr t_star]]
           [])"


section \<open>Enriched datasets and example rosters\<close>

text \<open>The columns \<open>generate_statistics\<close> reads from an enriched dataset.\<close>

definition enriched_columns :: "pystr list" where
  "enriched_columns = col_status # map snd dimensions @ [col_school, col_tier]"

definition has_columns :: "dataframe \<Rightarrow> pystr list \<Rightarrow> bool" where
  "has_columns df cs = list_all (\<lambda>c. map_of (columns df) c \<noteq> None) cs"

definition s_male :: pystr where
  "s_male = [0x7537]"

definition s_female :: pystr where
  "s_female = [0x5973]"

definition s_signed_bilateral :: pystr where
  "s_signed_bilateral = [0x5DF2, 0x7B7E, 0x7EA6] @ asc ''('' @ [0x4E24, 0x65B9] @ asc '')''"

definition s_signed_trilateral :: pystr where
  "s_signed_trilateral = [0x5DF2, 0x7B7E, 0x7EA6] @ asc ''('' @ [0x4E09, 0x65B9] @ asc '')''"

text \<open>
  An enriched roster of one signee (a man born in 2001, from Changsha in Hunan, with a
  bachelor's degree in engineering), given the hire-agreement text, the school name,
  the raw category tag and the tier.
\<close>

definition one_signee :: "pystr \<Rightarrow> pystr \<Rightarrow> pystr \<Rightarrow> pystr \<Rightarrow> dataframe" where
  "one_signee status school tag tier =
     \<lparr>nrows = 1,
      columns =
        [(col_gender, [Str s_male]),
         (col_birth_date, [Str (asc ''2001-07-15'')]),
         (col_political, [Str [0x7FA4, 0x4F17]]),
         (col_origin, [Str [0x6E56, 0x5357, 0x957F, 0x6C99]]),
         (col_status, [Str status]),
         (col_education, [Str [0x672C, 0x79D1]]),
         (col_major_type, [Str [0x5DE5, 0x79D1]]),
         (col_school, [Str school]),
         (col_institution_category, [Str tag]),
         (col_is_overseas, [is_overseas (Str tag)]),
         (col_tier, [Str tier]),
         (col_province, [Str [0x6E56, 0x5357]]),
         (col_generation, [Str (asc ''00'' @ [0x540E])])]\<rparr>"

text \<open>The three signees of the end-to-end scenario, with the other columns filled in.\<close>

definition three_signees :: dataframe where
  "three_signees =
     \<lparr>nrows = 3,
      columns =
        [(col_gender, [Str s_male, Str s_female, Str s_male]),
         (col_political,
            [Str [0x4E2D, 0x5171, 0x515A, 0x5458], Str [0x5171, 0x9752, 0x56E2, 0x5458],
             Str [0x7FA4, 0x4F17]]),
         (col_status,
            [Str s_signed_bilateral, Str s_signed_bilateral, Str s_signed_trilateral]),
         (col_education, [Str [0x672C, 0x79D1], Str [0x7855, 0x58EB], Str [0x672C, 0x79D1]]),
         (col_major_type, [Str [0x5DE5, 0x79D1], NaN, Str [0x5DE5, 0x79D1]]),
         (col_school, [Str s_tsinghua, Str s_peking, Str [0x4E2D, 0x5357, 0x5927, 0x5B66]]),
         (col_tier, [Str s_c9, Str s_c9, Str (asc ''211'')]),
         (col_province, [Str [0x6E56, 0x5357], Str [0x5317, 0x4EAC], Str [0x5E7F, 0x4E1C]]),
         (col_generation, [Str (asc ''95'' @ [0x540E]), Str (asc ''00'' @ [0x540E]), PyNone])]\<rparr>"

text \<open>The three signees of the scenario, with all of them men.\<close>

definition three_men :: dataframe where
  "three_men = df_setitem three_signees col_gender [Str s_male, Str s_male, Str s_male]"

text \<open>An enriched roster with the columns and no record.\<close>

definition no_signee :: dataframe where
  "no_signee = \<lparr>nrows = 0, columns = map (\<lambda>c. (c, [])) (remdups enriched_columns)\<rparr>"

text \<open>The four columns that \<open>enhance_data\<close> assigns, in the order of assignment.\<close>

definition derived_columns :: "pystr list" where
  "derived_columns = [col_is_overseas, col_tier, col_province, col_generation]"

text \<open>A raw roster of one signee: the three columns the enrichment reads and the school.\<close>

definition raw_signee :: dataframe where
  "raw_signee =
     \<lparr>nrows = 1,
      columns =
        [(col_school, [Str s_tsinghua]),
         (col_institution_category, [Str (asc ''985'')]),
         (col_origin, [Str [0x6E56, 0x5357, 0x957F, 0x6C99]]),
         (col_birth_date, [Str (asc ''1988-03-01'')])]\<rparr>"

text \<open>
  A roster of one signee born in 2001 that already carries a column named like the
  derived cohort column, filled in by hand with the 90 cohort; and what
  \<open>enhance_data\<close> makes of it.
\<close>

definition relabelled_roster :: dataframe where
  "relabelled_roster =
     \<lparr>nrows = 1,
      columns =
        [(col_institution_category, [Str (asc ''985'')]),
         (col_origin, [Str [0x6E56, 0x5357, 0x957F, 0x6C99]]),
         (col_birth_date, [Str (asc ''2001-07-15'')]),
         (col_generation, [Str (asc ''90'' @ [0x540E])])]\<rparr>"

definition relabelled_enriched :: dataframe where
  "relabelled_enriched =
     \<lparr>nrows = 1,
      columns =
        [(col_institution_category, [Str (asc ''985'')]),
         (col_origin, [Str [0x6E56, 0x5357, 0x957F, 0x6C99]]),
         (col_birth_date, [Str (asc ''2001-07-15'')]),
         (col_generation, [Str (asc ''00'' @ [0x540E])]),
         (col_is_overseas, [Str s_no]),
         (col_tier, [Str (asc ''985'')]),
         (col_province, [Str [0x6E56, 0x5357]])]\<rparr>"

section \<open>The specification's reading of the leading year\<close>

text \<open>
  The segment the specification parses as the year: the part before the first \<open>-\<close> if
  there is one, else the part before the first \<open>/\<close> if there is one, else the first four
  characters.
\<close>

definition spec_leading_segment :: "pystr \<Rightarrow> pystr" where
  "spec_leading_segment s =
     (if 45 \<in> set s then takeWhile (\<lambda>c. c \<noteq> 45) s
      else if 47 \<in> set s then takeWhile (\<lambda>c. c \<noteq> 47) s
      else take 4 s)"

section \<open>Properties of the field classifier\<close>

lemma py_in_iff: "py_in sub s \<longleftrightarrow> (\<exists>p q. s = p @ sub @ q)"
proof (induction s)
  case Nil
  then show ?case by auto
next
  case (Cons c cs)
  have "(\<exists>p q. c # cs = p @ sub @ q) \<longleftrightarrow> prefix sub (c # cs) \<or> (\<exists>p q. cs = p @ sub @ q)"
  proof
    assume "\<exists>p q. c # cs = p @ sub @ q"
    then obtain p q where pq: "c # cs = p @ sub @ q" by blast
    show "prefix sub (c # cs) \<or> (\<exists>p q. cs = p @ sub @ q)"
    proof (cases p)
      case Nil
      with pq show ?thesis by (auto simp: prefix_def)
    next
      case (Cons a p')
      with pq have "cs = p' @ sub @ q" by simp
      then show ?thesis by blast
    qed
  next
    assume "prefix sub (c # cs) \<or> (\<exists>p q. cs = p @ sub @ q)"
    then show "\<exists>p q. c # cs = p @ sub @ q"
    proof
      assume "prefix sub (c # cs)"
      then obtain q where "c # cs = sub @ q" by (auto simp: prefix_def)
      then have "c # cs = [] @ sub @ q" by simp
      then show ?thesis by blast
    next
      assume "\<exists>p q. cs = p @ sub @ q"
      then obtain p q where "cs = p @ sub @ q" by blast
      then have "c # cs = (c # p) @ sub @ q" by simp
      then show ?thesis by blast
    qed
  qed
  with Cons show ?case by simp
qed

lemma first_category_None:
  "first_category cs t = None \<longleftrightarrow> (\<forall>c \<in> set cs. \<not> py_in c t)"
  by (induction cs) auto

lemma first_category_index:
  "i < length cs \<Longrightarrow> py_in (cs ! i) t \<Longrightarrow> (\<forall>j<i. \<not> py_in (cs ! j) t)
     \<Longrightarrow> first_category cs t = Some (cs ! i)"
proof (induction cs arbitrary: i)
  case Nil
  then show ?case by simp
next
  case (Cons c cs)
  show ?case
  proof (cases i)
    case 0
    with Cons.prems show ?thesis by simp
  next
    case (Suc k)
    with Cons.prems have "\<not> py_in c t" by auto
    moreover have "first_category cs t = Some (cs ! k)"
      using Cons.prems Suc by (intro Cons.IH) auto
    ultimately show ?thesis using Suc by simp
  qed
qed

lemma overseas_tiers_not_c9:
  "s_qs1_50 \<noteq> s_c9" "s_qs100 \<noteq> s_c9" "s_other_overseas \<noteq> s_c9"
  by (simp_all add: s_qs1_50_def s_qs100_def s_other_overseas_def s_c9_def asc_def)

text \<open>
  Claim C1. Given the raw category tag of a row, \<open>classify_institution\<close> applies strict
  first-match priority. A tag containing the overseas marker is classified as
  \<open>QS1-50\<close> if it contains that substring, else as \<open>QS100\<close> if it contains that one,
  else as "other overseas", whatever domestic marker it also contains. A tag without the
  overseas marker is classified as the first entry of the ordered domestic list
  (C9 alliance, 985, 211, rail-transit partner, advantage discipline, Hunan well-known,
  innovative university, other supplemental list) that occurs in it, and as "other" when
  none does. In particular a tag with both the overseas marker and the C9 marker gets an
  overseas tier and never the C9 tier.
\<close>

theorem classify_institution_priority:
  assumes "row col_institution_category = Some (Str tag)"
  shows "(py_in s_overseas tag \<longrightarrow>
            classify_institution row =
              (if py_in s_qs1_50 tag then s_qs1_50
               else if py_in s_qs100 tag then s_qs100 else s_other_overseas))
       \<and> (\<not> py_in s_overseas tag \<longrightarrow>
            (\<forall>i < length categories.
               py_in (categories ! i) tag \<and> (\<forall>j<i. \<not> py_in (categories ! j) tag)
                 \<longrightarrow> classify_institution row = categories ! i)
          \<and> ((\<forall>c \<in> set categories. \<not> py_in c tag) \<longrightarrow> classify_institution row = s_other))
       \<and> (py_in s_overseas tag \<and> py_in s_c9 tag \<longrightarrow>
            classify_institution row \<in> {s_qs1_50, s_qs100, s_other_overseas}
          \<and> classify_institution row \<noteq> s_c9)
       \<and> length categories = 8 \<and> categories ! 0 = s_c9"
proof -
  have cat: "py_str (case row col_institution_category of Some v \<Rightarrow> v | None \<Rightarrow> Str []) = tag"
    using assms by simp
  have ov: "py_in s_overseas tag \<Longrightarrow>
      classify_institution row =
        (if py_in s_qs1_50 tag then s_qs1_50
         else if py_in s_qs100 tag then s_qs100 else s_other_overseas)"
    by (simp add: classify_institution_def cat)
  have dom: "classify_institution row = categories ! i"
    if "\<not> py_in s_overseas tag" "i < length categories" "py_in (categories ! i) tag"
       "\<forall>j<i. \<not> py_in (categories ! j) tag" for i
    using that first_category_index [of i categories tag]
    by (simp add: classify_institution_def cat)
  have none: "classify_institution row = s_other"
    if "\<not> py_in s_overseas tag" "\<forall>c \<in> set categories. \<not> py_in c tag"
  proof -
    from that(2) have "first_category categories tag = None"
      by (simp add: first_category_None)
    with that(1) show ?thesis by (simp add: classify_institution_def cat)
  qed
  have mixed: "classify_institution row \<in> {s_qs1_50, s_qs100, s_other_overseas}
      \<and> classify_institution row \<noteq> s_c9" if "py_in s_overseas tag"
    using ov [OF that] overseas_tiers_not_c9 by auto
  have len: "length categories = 8 \<and> categories ! 0 = s_c9"
    by (simp add: categories_def)
  show ?thesis using ov dom none mixed len by blast
qed

text \<open>
  The theorem at a tag holding both the C9 marker and the overseas marker: the row is
  classified as "other overseas".
\<close>

theorem classify_institution_priority_witness:
  "[col_institution_category \<mapsto> Str (s_c9 @ asc '','' @ s_overseas)] col_institution_category
     = Some (Str (s_c9 @ asc '','' @ s_overseas))
   \<and> py_in s_overseas (s_c9 @ asc '','' @ s_overseas)
   \<and> py_in s_c9 (s_c9 @ asc '','' @ s_overseas)
   \<and> classify_institution [col_institution_category \<mapsto> Str (s_c9 @ asc '','' @ s_overseas)]
       = s_other_overseas"
proof -
  let ?tag = "s_c9 @ asc '','' @ s_overseas"
  let ?row = "[col_institution_category \<mapsto> Str ?tag]"
  have h: "?row col_institution_category = Some (Str ?tag)" by simp
  have a: "py_in s_overseas ?tag"
    by (simp add: s_overseas_def s_c9_def asc_def)
  have b: "py_in s_c9 ?tag"
    by (simp add: s_overseas_def s_c9_def asc_def)
  have c: "\<not> py_in s_qs1_50 ?tag"
    by (simp add: s_overseas_def s_c9_def s_qs1_50_def asc_def)
  have d: "\<not> py_in s_qs100 ?tag"
    by (simp add: s_overseas_def s_c9_def s_qs100_def asc_def)
  from classify_institution_priority [of ?row ?tag, OF h] a c d
  have "classify_institution ?row = s_other_overseas" by simp
  with h a b show ?thesis by blast
qed

subsection \<open>Birth cohort\<close>

lemma py_in_single: "py_in [c] s \<longleftrightarrow> c \<in> set s"
  by (induction s) auto

lemma py_split_first: "py_getitem (py_split sep s) 0 = Inr (takeWhile (\<lambda>c. c \<noteq> sep) s)"
proof -
  have "\<exists>ws. py_split sep s = takeWhile (\<lambda>c. c \<noteq> sep) s # ws"
    by (induction s) (auto split: list.splits)
  then show ?thesis by (auto simp: py_getitem_def)
qed

lemma py_int_cases: "py_int s = Inl ValueError \<or> (\<exists>y. py_int s = Inr y)"
  by (simp add: py_int_def Let_def split: option.splits)

lemma generation_try_segment:
  "s \<noteq> [] \<Longrightarrow> generation_try (Str s) =
     (case py_int (spec_leading_segment s) of
        Inl e \<Rightarrow> Inl e
      | Inr y \<Rightarrow> Inr (generation_of_year y))"
  by (simp add: generation_try_def spec_leading_segment_def asc_def py_in_single
      py_split_first Let_def)

lemmas generation_eval =
  calculate_generation_def generation_try_def asc_def py_getitem_def py_int_def int_space_def
  decimal_digit_def decimal_zeros_def max_str_digits_def generation_of_year_def

text \<open>
  Claim C4. On every string, and on a missing value, \<open>calculate_generation\<close> returns
  (it raises nothing). A missing or empty input gives \<open>None\<close>. Otherwise the year is the
  integer value of the segment before the first \<open>-\<close> if there is one, else of the segment
  before the first \<open>/\<close> if there is one, else of the first four characters; a year from
  2005 on gives the 05 cohort, from 2000 on the 00 cohort, from 1995 on the 95 cohort,
  from 1990 on the 90 cohort, and an earlier year gives \<open>None\<close>; a segment that does not
  parse as an integer gives \<open>None\<close>. In particular \<open>1988-03-01\<close> gives \<open>None\<close> and
  \<open>2001/07/15\<close> gives the 00 cohort.
\<close>

theorem calculate_generation_total:
  "calculate_generation NaN = Inr None
   \<and> calculate_generation PyNone = Inr None
   \<and> calculate_generation (Str s) =
       Inr (if s = [] then None
            else case py_int (spec_leading_segment s) of
                   Inl e \<Rightarrow> None
                 | Inr year \<Rightarrow>
                     if year \<ge> 2005 then Some (asc ''05'' @ [0x540E])
                     else if year \<ge> 2000 then Some (asc ''00'' @ [0x540E])
                     else if year \<ge> 1995 then Some (asc ''95'' @ [0x540E])
                     else if year \<ge> 1990 then Some (asc ''90'' @ [0x540E])
                     else None)
   \<and> calculate_generation (Str (asc ''1988-03-01'')) = Inr None
   \<and> calculate_generation (Str (asc ''2001/07/15'')) = Inr (Some (asc ''00'' @ [0x540E]))"
proof -
  have a: "calculate_generation NaN = Inr None" "calculate_generation PyNone = Inr None"
    by (simp_all add: calculate_generation_def generation_try_def)
  have b: "calculate_generation (Str []) = Inr None"
    by (simp add: calculate_generation_def generation_try_def)
  have c: "calculate_generation (Str s) =
       Inr (case py_int (spec_leading_segment s) of
              Inl e \<Rightarrow> None | Inr year \<Rightarrow> generation_of_year year)" if "s \<noteq> []"
    using py_int_cases [of "spec_leading_segment s"] generation_try_segment [OF that]
    by (auto simp: calculate_generation_def)
  have d: "calculate_generation (Str (asc ''1988-03-01'')) = Inr None"
    by (simp add: generation_eval)
  have e: "calculate_generation (Str (asc ''2001/07/15'')) = Inr (Some (asc ''00'' @ [0x540E]))"
    by (simp add: generation_eval)
  show ?thesis
  proof (cases "s = []")
    case True
    with a b d e show ?thesis by simp
  next
    case False
    from c [OF False] a d e False show ?thesis
      by (simp add: generation_of_year_def split: sum.splits)
  qed
qed

text \<open>The theorem at \<open>1996/02/29\<close> (the 95 cohort) and at a string that is no number.\<close>

theorem calculate_generation_total_witness:
  "calculate_generation (Str (asc ''1996/02/29'')) = Inr (Some (asc ''95'' @ [0x540E]))
   \<and> calculate_generation (Str (asc ''n/a'')) = Inr None"
proof -
  have "calculate_generation (Str (asc ''1996/02/29'')) = Inr (Some (asc ''95'' @ [0x540E]))"
    using calculate_generation_total [of "asc ''1996/02/29''"]
    by (simp add: spec_leading_segment_def asc_def py_int_def int_space_def decimal_digit_def
        decimal_zeros_def max_str_digits_def)
  moreover have "calculate_generation (Str (asc ''n/a'')) = Inr None"
    using calculate_generation_total [of "asc ''n/a''"]
    by (simp add: spec_leading_segment_def asc_def py_int_def int_space_def decimal_digit_def
        decimal_zeros_def max_str_digits_def)
  ultimately show ?thesis by simp
qed

subsection \<open>Province\<close>

lemma first_province_None:
  "first_province pm t = None \<longleftrightarrow> (\<forall>kv \<in> set pm. \<not> py_in (fst kv) t)"
  by (induction pm) (auto split: if_splits)

lemma first_province_index:
  "i < length pm \<Longrightarrow> py_in (fst (pm ! i)) t \<Longrightarrow> (\<forall>j<i. \<not> py_in (fst (pm ! j)) t)
     \<Longrightarrow> first_province pm t = Some (snd (pm ! i))"
proof (induction pm arbitrary: i)
  case Nil
  then show ?case by simp
next
  case (Cons kv pm)
  obtain k v where kv: "kv = (k, v)" by (cases kv)
  show ?case
  proof (cases i)
    case 0
    with Cons.prems kv show ?thesis by simp
  next
    case (Suc n)
    with Cons.prems have "\<not> py_in (fst kv) t" by auto
    moreover have "first_province pm t = Some (snd (pm ! n))"
      using Cons.prems Suc by (intro Cons.IH) auto
    ultimately show ?thesis using Suc kv by simp
  qed
qed

text \<open>
  Claim C5. \<open>extract_province\<close> returns "unknown" for a missing or empty origin. For any
  other string it returns the mapped province at once when the string is a key of the
  alias table; else, when the string contains \<open>-\<close>, the table's value for the prefix
  before the first \<open>-\<close>, or that prefix itself when the table has no entry for it; else
  the province of the first key, in the table's insertion order, that occurs in the
  string; else the string unchanged. In particular the key "Hunan Changsha" gives "Hunan".
\<close>

theorem extract_province_rule:
  "extract_province NaN = Inr s_unknown
   \<and> extract_province PyNone = Inr s_unknown
   \<and> extract_province (Str []) = Inr s_unknown
   \<and> (s \<noteq> [] \<longrightarrow>
        (\<forall>p. map_of province_map s = Some p \<longrightarrow> extract_province (Str s) = Inr p)
      \<and> (map_of province_map s = None \<and> 45 \<in> set s \<longrightarrow>
           extract_province (Str s) =
             Inr (case map_of province_map (takeWhile (\<lambda>c. c \<noteq> 45) s) of
                    Some p \<Rightarrow> p
                  | None \<Rightarrow> takeWhile (\<lambda>c. c \<noteq> 45) s))
      \<and> (map_of province_map s = None \<and> 45 \<notin> set s \<longrightarrow>
           (\<forall>i < length province_map.
              py_in (fst (province_map ! i)) s
              \<and> (\<forall>j<i. \<not> py_in (fst (province_map ! j)) s)
                \<longrightarrow> extract_province (Str s) = Inr (snd (province_map ! i)))
         \<and> ((\<forall>kv \<in> set province_map. \<not> py_in (fst kv) s)
                \<longrightarrow> extract_province (Str s) = Inr s)))
   \<and> extract_province (Str [0x6E56, 0x5357, 0x957F, 0x6C99]) = Inr [0x6E56, 0x5357]"
proof -
  have null: "extract_province NaN = Inr s_unknown" "extract_province PyNone = Inr s_unknown"
    "extract_province (Str []) = Inr s_unknown"
    by (simp_all add: extract_province_def)
  have exact: "extract_province (Str s) = Inr p"
    if "s \<noteq> []" "map_of province_map s = Some p" for p
    using that by (simp add: extract_province_def)
  have sep: "extract_province (Str s) =
             Inr (case map_of province_map (takeWhile (\<lambda>c. c \<noteq> 45) s) of
                    Some p \<Rightarrow> p
                  | None \<Rightarrow> takeWhile (\<lambda>c. c \<noteq> 45) s)"
    if "s \<noteq> []" "map_of province_map s = None" "45 \<in> set s"
    using that
    by (simp add: extract_province_def asc_def py_in_single py_split_first split: option.splits)
  have scan: "extract_province (Str s) = Inr (snd (province_map ! i))"
    if "s \<noteq> []" "map_of province_map s = None" "45 \<notin> set s" "i < length province_map"
       "py_in (fst (province_map ! i)) s" "\<forall>j<i. \<not> py_in (fst (province_map ! j)) s" for i
    using that first_province_index [of i province_map s]
    by (simp add: extract_province_def asc_def py_in_single)
  have raw: "extract_province (Str s) = Inr s"
    if "s \<noteq> []" "map_of province_map s = None" "45 \<notin> set s"
       "\<forall>kv \<in> set province_map. \<not> py_in (fst kv) s"
  proof -
    from that(4) have "first_province province_map s = None"
      by (simp add: first_province_None)
    with that(1-3) show ?thesis
      by (simp add: extract_province_def asc_def py_in_single)
  qed
  have ex: "extract_province (Str [0x6E56, 0x5357, 0x957F, 0x6C99]) = Inr [0x6E56, 0x5357]"
    by (simp add: extract_province_def province_map_def)
  show ?thesis using null exact sep scan raw ex by blast
qed

text \<open>
  The theorem at "Beijing-Haidian": no key of the table, with a separator, so the prefix
  "Beijing" is looked up.
\<close>

theorem extract_province_rule_witness:
  "[0x5317, 0x4EAC, 45, 0x6D77, 0x6DC0] \<noteq> []
   \<and> map_of province_map [0x5317, 0x4EAC, 45, 0x6D77, 0x6DC0] = None
   \<and> 45 \<in> set [0x5317, 0x4EAC, 45, 0x6D77, 0x6DC0 :: nat]
   \<and> extract_province (Str [0x5317, 0x4EAC, 45, 0x6D77, 0x6DC0]) = Inr [0x5317, 0x4EAC]"
proof -
  let ?s = "[0x5317, 0x4EAC, 45, 0x6D77, 0x6DC0] :: pystr"
  have a: "map_of province_map ?s = None" by (simp add: province_map_def)
  have b: "map_of province_map (takeWhile (\<lambda>c. c \<noteq> 45) ?s) = Some [0x5317, 0x4EAC]"
    by (simp add: province_map_def)
  from extract_province_rule [of ?s] a b
  have "extract_province (Str ?s) = Inr [0x5317, 0x4EAC]" by simp
  with a show ?thesis by simp
qed

subsection \<open>Counting values\<close>

lemma sum_insort_key:
  "sum_list (map f (insort_key k x xs)) = (f x :: nat) + sum_list (map f xs)"
  by (induction xs) auto

lemma sum_sort_key: "sum_list (map f (sort_key k xs)) = (sum_list (map f xs) :: nat)"
  by (induction xs) (auto simp: sum_insort_key)

lemma set_first_seen: "set (first_seen xs) = set xs"
  by (induction xs rule: first_seen.induct) auto

lemma count_list_filter_neq: "k \<noteq> x \<Longrightarrow> count_list (filter (\<lambda>y. y \<noteq> x) xs) k = count_list xs k"
  by (induction xs) auto

lemma sum_count_first_seen: "sum_list (map (count_list xs) (first_seen xs)) = length xs"
proof (induction xs rule: first_seen.induct)
  case 1
  show ?case by simp
next
  case (2 x xs)
  let ?r = "filter (\<lambda>y. y \<noteq> x) xs"
  have "map (count_list (x # xs)) (first_seen ?r) = map (count_list ?r) (first_seen ?r)"
  proof (rule map_cong [OF refl])
    fix k assume "k \<in> set (first_seen ?r)"
    then have "k \<noteq> x" by (simp add: set_first_seen)
    then show "count_list (x # xs) k = count_list ?r k"
      by (simp add: count_list_filter_neq)
  qed
  from arg_cong [OF this, of sum_list] "2.IH"
  have A: "sum_list (map (count_list (x # xs)) (first_seen ?r)) = length ?r"
    by (simp only:)
  have B: "count_list xs x + length ?r = length xs"
    using sum_length_filter_compl [of "(=) x" xs]
    by (simp add: count_list_eq_length_filter eq_commute [of x])
  have C: "first_seen (x # xs) = x # first_seen ?r" by simp
  have D: "count_list (x # xs) x = count_list xs x + 1" by simp
  have E: "sum_list (map (count_list (x # xs)) (first_seen (x # xs)))
          = count_list xs x + 1 + length ?r"
    unfolding C by (simp only: list.map sum_list.Cons A D)
  have F: "length (x # xs) = length xs + 1" by simp
  show ?case unfolding E F using B by linarith
qed

lemma length_non_null: "length (non_null vs) + length (filter isna vs) = length vs"
proof (induction vs)
  case Nil
  show ?case by (simp add: non_null_def)
next
  case (Cons c vs)
  then show ?case by (cases c) (simp_all add: non_null_def)
qed

lemma set_non_null: "set (non_null vs) = {t. Str t \<in> set vs}"
proof (induction vs)
  case Nil
  show ?case by (simp add: non_null_def)
next
  case (Cons c vs)
  then show ?case by (cases c) (auto simp: non_null_def)
qed

lemma count_non_null: "count_list (non_null vs) t = count_list vs (Str t)"
proof (induction vs)
  case Nil
  show ?case by (simp add: non_null_def)
next
  case (Cons c vs)
  then show ?case by (cases c) (auto simp: non_null_def)
qed

lemma sum_value_counts: "sum_list (map snd (value_counts vs)) = length (non_null vs)"
  by (simp add: value_counts_def Let_def sum_sort_key comp_def sum_count_first_seen)

lemma set_value_counts:
  "set (value_counts vs) = {(t, n). Str t \<in> set vs \<and> n = count_list vs (Str t)}"
  by (auto simp: value_counts_def Let_def set_first_seen set_non_null count_non_null)

lemma snd_value_counts_pos: "kv \<in> set (value_counts vs) \<Longrightarrow> vs \<noteq> []"
  by (auto simp: set_value_counts)

lemma percentage_of_ok: "0 < n \<Longrightarrow> \<exists>p. percentage_of v n = Inr p"
  by (simp add: percentage_of_def py_truediv_def)

lemma entries_of_ok:
  "0 < n \<or> kvs = [] \<Longrightarrow>
     \<exists>es. entries_of n kvs = Inr es \<and> map name es = map fst kvs \<and> map count es = map snd kvs"
proof (induction kvs)
  case Nil
  show ?case by simp
next
  case (Cons kv kvs)
  obtain k v where kv: "kv = (k, v)" by (cases kv)
  from Cons.prems have n: "0 < n" by simp
  with Cons.IH obtain es where es: "entries_of n kvs = Inr es" "map name es = map fst kvs"
    "map count es = map snd kvs" by blast
  from percentage_of_ok [OF n] obtain p where "percentage_of v n = Inr p" by blast
  with es kv show ?case by simp
qed

lemma entries_of_zero: "entries_of 0 (kv # kvs) = Inl ZeroDivisionError"
  by (cases kv) (simp add: percentage_of_def py_truediv_def)

subsection \<open>Structure of the aggregator\<close>

lemma df_getitem_length: "wf_df df \<Longrightarrow> df_getitem df c = Inr vs \<Longrightarrow> length vs = nrows df"
proof -
  assume wf: "wf_df df" and g: "df_getitem df c = Inr vs"
  from g have "map_of (columns df) c = Some vs"
    by (simp add: df_getitem_def split: option.splits)
  then have "(c, vs) \<in> set (columns df)" by (rule map_of_SomeD)
  with wf show ?thesis by (auto simp: wf_df_def list_all_iff)
qed

lemma df_getitem_present: "map_of (columns df) c \<noteq> None \<Longrightarrow> \<exists>vs. df_getitem df c = Inr vs"
  by (auto simp: df_getitem_def)

lemma entries_of_names:
  "entries_of n kvs = Inr es \<Longrightarrow> map name es = map fst kvs \<and> map count es = map snd kvs"
proof (induction kvs arbitrary: es)
  case Nil
  then show ?case by simp
next
  case (Cons kv kvs)
  obtain k v where kv: "kv = (k, v)" by (cases kv)
  from Cons.prems kv obtain p es' where "entries_of n kvs = Inr es'"
    "es = \<lparr>name = k, count = v, percentage = p\<rparr> # es'"
    by (auto split: sum.splits)
  with Cons.IH kv show ?case by simp
qed

lemma entries_of_column:
  "length vs = n \<Longrightarrow> \<exists>es. entries_of n (value_counts vs) = Inr es"
proof (cases "n = 0")
  case True
  assume "length vs = n"
  with True have "vs = []" by simp
  then have "value_counts vs = []" by (simp add: value_counts_def non_null_def)
  then show ?thesis by simp
next
  case False
  then have "0 < n \<or> value_counts vs = []" by simp
  from entries_of_ok [OF this] show ?thesis by blast
qed

lemma dimension_loop_ok:
  "wf_df df \<Longrightarrow> list_all (\<lambda>kc. map_of (columns df) (snd kc) \<noteq> None) dims
     \<Longrightarrow> \<exists>ds. dimension_loop df (nrows df) dims = Inr ds"
proof (induction dims)
  case Nil
  show ?case by simp
next
  case (Cons kc dims)
  obtain k c where kc: "kc = (k, c)" by (cases kc)
  from Cons.prems kc obtain vs where vs: "df_getitem df c = Inr vs"
    using df_getitem_present [of df c] by auto
  from df_getitem_length [OF Cons.prems(1) vs] entries_of_column
  obtain es where es: "entries_of (nrows df) (value_counts vs) = Inr es" by blast
  from Cons obtain ds where "dimension_loop df (nrows df) dims = Inr ds" by auto
  with kc vs es show ?case by simp
qed

lemma dimension_loop_lookup:
  "dimension_loop df n dims = Inr ds \<Longrightarrow> distinct (map fst dims) \<Longrightarrow> (k, c) \<in> set dims
     \<Longrightarrow> \<exists>vs es. df_getitem df c = Inr vs \<and> entries_of n (value_counts vs) = Inr es
           \<and> map_of ds k = Some es"
proof (induction dims arbitrary: ds)
  case Nil
  then show ?case by simp
next
  case (Cons kc dims)
  obtain k' c' where kc: "kc = (k', c')" by (cases kc)
  from Cons.prems(1) kc obtain vs es ds' where parts: "df_getitem df c' = Inr vs"
    "entries_of n (value_counts vs) = Inr es" "dimension_loop df n dims = Inr ds'"
    "ds = (k', es) # ds'"
    by (auto split: sum.splits)
  show ?case
  proof (cases "(k, c) = (k', c')")
    case True
    with parts show ?thesis by auto
  next
    case False
    with Cons.prems(3) kc have mem: "(k, c) \<in> set dims" by auto
    with Cons.prems(2) kc have "k \<noteq> k'" by force
    moreover from Cons.IH [OF parts(3) _ mem] Cons.prems(2)
    obtain vs' es' where "df_getitem df c = Inr vs'" "entries_of n (value_counts vs') = Inr es'"
      "map_of ds' k = Some es'" by auto
    ultimately show ?thesis using parts(4) by auto
  qed
qed

lemma dimension_loop_keys: "dimension_loop df n dims = Inr ds \<Longrightarrow> map fst ds = map fst dims"
proof (induction dims arbitrary: ds)
  case Nil
  then show ?case by simp
next
  case (Cons kc dims)
  obtain k c where kc: "kc = (k, c)" by (cases kc)
  with Cons show ?case by (auto split: sum.splits)
qed

lemma school_loop_fold:
  "df_getitem df col_school = Inr schools \<Longrightarrow>
     school_loop df ss result =
       Inr (foldl (\<lambda>r ds. AList.update (fst ds) (int (count_list schools (Str (snd ds)))) r)
              result ss)"
proof (induction ss arbitrary: result)
  case Nil
  show ?case by simp
next
  case (Cons ds ss)
  obtain d s where "ds = (d, s)" by (cases ds)
  with Cons show ?case by simp
qed

lemmas school_names = s_tsinghua_def s_peking_def s_c9_def asc_def

lemma special_institutions_value:
  "df_getitem df col_school = Inr schools \<Longrightarrow> df_getitem df col_tier = Inr tiers \<Longrightarrow>
     calculate_special_institutions df =
       Inr (map (\<lambda>ds. (fst ds, int (count_list schools (Str (snd ds))))) special_schools
            @ [(s_c9, int (count_list tiers (Str s_c9))
                      - int (count_list schools (Str s_tsinghua))
                      - int (count_list schools (Str s_peking)))])"
  by (simp add: calculate_special_institutions_def school_loop_fold special_schools_def
      school_names)

lemma generate_statistics_Inr:
  "generate_statistics df = Inr st \<Longrightarrow>
     \<exists>statuses ds special.
        df_getitem df col_status = Inr statuses
      \<and> dimension_loop df (nrows df) dimensions = Inr ds
      \<and> calculate_special_institutions df = Inr special
      \<and> st = \<lparr>total_count = nrows df,
              bilateral_count = length (filter (str_contains s_bilateral) statuses),
              trilateral_count = length (filter (str_contains s_trilateral) statuses),
              distributions = ds, special_institutions = special\<rparr>"
  by (auto simp: generate_statistics_def Let_def split: sum.splits)

lemma calculate_special_Inr:
  "calculate_special_institutions df = Inr special \<Longrightarrow>
     \<exists>schools tiers. df_getitem df col_school = Inr schools \<and> df_getitem df col_tier = Inr tiers"
  by (auto simp: calculate_special_institutions_def special_schools_def
      split: sum.splits)

lemma has_enriched_columns:
  "has_columns df enriched_columns \<Longrightarrow>
     map_of (columns df) col_status \<noteq> None
   \<and> list_all (\<lambda>kc. map_of (columns df) (snd kc) \<noteq> None) dimensions
   \<and> map_of (columns df) col_school \<noteq> None \<and> map_of (columns df) col_tier \<noteq> None"
  by (simp add: has_columns_def enriched_columns_def list_all_iff)

lemma generate_statistics_ok:
  assumes "wf_df df" "has_columns df enriched_columns"
  shows "\<exists>st. generate_statistics df = Inr st"
proof -
  note cols = has_enriched_columns [OF assms(2)]
  from cols df_getitem_present obtain statuses where a: "df_getitem df col_status = Inr statuses"
    by blast
  from dimension_loop_ok [OF assms(1)] cols
  obtain ds where b: "dimension_loop df (nrows df) dimensions = Inr ds" by blast
  from cols df_getitem_present obtain schools tiers where
    "df_getitem df col_school = Inr schools" "df_getitem df col_tier = Inr tiers" by blast
  from special_institutions_value [OF this]
  obtain special where c: "calculate_special_institutions df = Inr special" by blast
  from a b c show ?thesis by (simp add: generate_statistics_def)
qed

subsection \<open>Statistics of enriched datasets\<close>

lemmas col_names =
  col_status_def col_political_def col_gender_def col_generation_def col_education_def
  col_tier_def col_major_type_def col_province_def col_school_def
  col_institution_category_def col_origin_def col_birth_date_def col_is_overseas_def asc_def

lemma wf_one_signee: "wf_df (one_signee status school tag tier)"
  by (simp add: wf_df_def one_signee_def col_names)

lemma cols_one_signee: "has_columns (one_signee status school tag tier) enriched_columns"
  by (simp add: has_columns_def enriched_columns_def dimensions_def one_signee_def col_names)

lemma status_one_signee:
  "df_getitem (one_signee status school tag tier) col_status = Inr [Str status]"
  by (simp add: df_getitem_def one_signee_def col_names)

lemma school_one_signee:
  "df_getitem (one_signee status school tag tier) col_school = Inr [Str school]"
  by (simp add: df_getitem_def one_signee_def col_names)

lemma tier_one_signee:
  "df_getitem (one_signee status school tag tier) col_tier = Inr [Str tier]"
  by (simp add: df_getitem_def one_signee_def col_names)

lemma classify_one_signee:
  "apply_rows classify_institution (one_signee status school s_overseas tier) = [s_other_overseas]"
  by (simp add: apply_rows_def row_at_def one_signee_def classify_institution_def col_names
      s_overseas_def s_qs1_50_def s_qs100_def)

lemma wf_no_signee: "wf_df no_signee"
  by (simp add: wf_df_def no_signee_def enriched_columns_def dimensions_def col_names)

lemma cols_no_signee: "has_columns no_signee enriched_columns"
  by (simp add: has_columns_def no_signee_def enriched_columns_def dimensions_def col_names)


lemma dimension_loop_empty:
  "wf_df df \<Longrightarrow> nrows df = 0
     \<Longrightarrow> list_all (\<lambda>kc. map_of (columns df) (snd kc) \<noteq> None) dims
     \<Longrightarrow> dimension_loop df 0 dims = Inr (map (\<lambda>kc. (fst kc, [])) dims)"
proof (induction dims)
  case Nil
  show ?case by simp
next
  case (Cons kc dims)
  obtain k c where kc: "kc = (k, c)" by (cases kc)
  from Cons.prems kc obtain vs where vs: "df_getitem df c = Inr vs"
    using df_getitem_present [of df c] by auto
  from df_getitem_length [OF Cons.prems(1) vs] Cons.prems(2) have "vs = []" by simp
  then have "value_counts vs = []" by (simp add: value_counts_def non_null_def)
  with Cons kc vs show ?case by simp
qed

text \<open>
  Claim C3. On an enriched dataset with no record, \<open>generate_statistics\<close> returns (no
  exception, no division by zero) the snapshot with \<open>total_count\<close>, \<open>bilateral_count\<close>
  and \<open>trilateral_count\<close> zero, an empty distribution for each of the seven dimensions,
  and a special-institution tally whose every entry, the derived C9 entry included, is
  zero.
\<close>

theorem zero_record_statistics:
  assumes "wf_df df" "has_columns df enriched_columns" "nrows df = 0"
  shows "generate_statistics df =
           Inr \<lparr>total_count = 0, bilateral_count = 0, trilateral_count = 0,
                distributions = map (\<lambda>kc. (fst kc, [])) dimensions,
                special_institutions = map (\<lambda>ds. (fst ds, 0)) special_schools @ [(s_c9, 0)]\<rparr>
         \<and> length dimensions = 7"
proof -
  note cols = has_enriched_columns [OF assms(2)]
  have empty: "vs = []" if "df_getitem df c = Inr vs" for c vs
    using df_getitem_length [OF assms(1) that] assms(3) by simp
  from cols df_getitem_present obtain statuses where a: "df_getitem df col_status = Inr statuses"
    by blast
  from empty [OF a] have a': "statuses = []" .
  from dimension_loop_empty [OF assms(1) assms(3)] cols
  have b: "dimension_loop df 0 dimensions = Inr (map (\<lambda>kc. (fst kc, [])) dimensions)" by blast
  from cols df_getitem_present obtain schools tiers where
    st: "df_getitem df col_school = Inr schools" "df_getitem df col_tier = Inr tiers" by blast
  from empty [OF st(1)] empty [OF st(2)] have e: "schools = []" "tiers = []" .
  from special_institutions_value [OF st] e
  have c: "calculate_special_institutions df =
             Inr (map (\<lambda>ds. (fst ds, 0)) special_schools @ [(s_c9, 0)])" by simp
  have "length dimensions = 7" by (simp add: dimensions_def)
  with a a' b c assms(3) show ?thesis by (simp add: generate_statistics_def)
qed

text \<open>The theorem at the roster that has the columns and no record.\<close>

theorem zero_record_statistics_witness:
  "wf_df no_signee \<and> has_columns no_signee enriched_columns \<and> nrows no_signee = 0
   \<and> generate_statistics no_signee =
       Inr \<lparr>total_count = 0, bilateral_count = 0, trilateral_count = 0,
            distributions = map (\<lambda>kc. (fst kc, [])) dimensions,
            special_institutions = map (\<lambda>ds. (fst ds, 0)) special_schools @ [(s_c9, 0)]\<rparr>"
proof -
  have n: "nrows no_signee = 0" by (simp add: no_signee_def)
  from zero_record_statistics [OF wf_no_signee cols_no_signee n] wf_no_signee cols_no_signee n
  show ?thesis by blast
qed

text \<open>
  Claim C2. For every enriched dataset and each of the seven dimensions,
  \<open>generate_statistics\<close> returns a snapshot whose distribution for that dimension
  satisfies: the sum of the \<open>count\<close> fields plus the number of records with a null
  value in the dimension's column is \<open>total_count\<close>. The entries are exactly the
  non-null values of the column, each with its number of occurrences, so records with a
  null value contribute no entry.
\<close>

theorem distribution_counts_sum:
  assumes "wf_df df" "has_columns df enriched_columns" "(k, c) \<in> set dimensions"
  shows "\<exists>st vs es.
           generate_statistics df = Inr st
         \<and> df_getitem df c = Inr vs
         \<and> map_of (distributions st) k = Some es
         \<and> sum_list (map count es) + length (filter isna vs) = total_count st
         \<and> set (map name es) = {t. Str t \<in> set vs}
         \<and> (\<forall>e \<in> set es. count e = count_list vs (Str (name e)))"
proof -
  from generate_statistics_ok [OF assms(1,2)] obtain st where st: "generate_statistics df = Inr st"
    by blast
  from generate_statistics_Inr [OF st] obtain ds where
    ds: "dimension_loop df (nrows df) dimensions = Inr ds" "distributions st = ds"
    "total_count st = nrows df" by auto
  have "distinct (map fst dimensions)" by (simp add: dimensions_def)
  from dimension_loop_lookup [OF ds(1) this assms(3)] obtain vs es where
    parts: "df_getitem df c = Inr vs" "entries_of (nrows df) (value_counts vs) = Inr es"
    "map_of ds k = Some es" by blast
  from entries_of_names [OF parts(2)] have
    nm: "map name es = map fst (value_counts vs)" and ct: "map count es = map snd (value_counts vs)"
    by simp_all
  have len: "length vs = nrows df" by (rule df_getitem_length [OF assms(1) parts(1)])
  have total: "sum_list (map count es) + length (filter isna vs) = total_count st"
    using length_non_null [of vs] by (simp add: ct sum_value_counts len ds(3))
  have names: "set (map name es) = {t. Str t \<in> set vs}"
    by (force simp: nm set_value_counts)
  have each: "count e = count_list vs (Str (name e))" if "e \<in> set es" for e
  proof -
    from that obtain i where i: "i < length es" "es ! i = e" by (auto simp: in_set_conv_nth)
    from nm ct have l: "length es = length (value_counts vs)"
      by (metis length_map)
    from i l have "(name e, count e) = value_counts vs ! i"
      using nth_map [of i es name] nth_map [of i es count]
        nth_map [of i "value_counts vs" fst] nth_map [of i "value_counts vs" snd] nm ct
      by (simp add: prod_eq_iff)
    with i l have "(name e, count e) \<in> set (value_counts vs)" by (metis nth_mem)
    then show ?thesis by (simp add: set_value_counts)
  qed
  from st parts(1) parts(3) ds(2) total names each show ?thesis by blast
qed


lemma wf_three_signees: "wf_df three_signees"
  by (simp add: wf_df_def three_signees_def col_names)

lemma cols_three_signees: "has_columns three_signees enriched_columns"
  by (simp add: has_columns_def enriched_columns_def dimensions_def three_signees_def col_names)

text \<open>
  The theorem at the three-signee roster and the major-type dimension, whose column
  holds one null value.
\<close>

theorem distribution_counts_sum_witness:
  "wf_df three_signees \<and> has_columns three_signees enriched_columns
   \<and> (''major_type'', col_major_type) \<in> set dimensions
   \<and> (\<exists>st vs es.
         generate_statistics three_signees = Inr st
       \<and> df_getitem three_signees col_major_type = Inr vs
       \<and> map_of (distributions st) ''major_type'' = Some es
       \<and> sum_list (map count es) + length (filter isna vs) = total_count st
       \<and> set (map name es) = {t. Str t \<in> set vs}
       \<and> (\<forall>e \<in> set es. count e = count_list vs (Str (name e))))"
proof -
  have m: "(''major_type'', col_major_type) \<in> set dimensions"
    by (simp add: dimensions_def)
  from distribution_counts_sum [OF wf_three_signees cols_three_signees m]
    wf_three_signees cols_three_signees m
  show ?thesis by blast
qed

lemmas float_eval =
  percentage_of_def py_truediv_def round_ratio_def bit_length.simps float_times_int_def
  py_round1_def div_half_even_def Let_def

lemma percentage_two_thirds: "percentage_of 2 3 = Inr 667"
  by (simp add: float_eval)

lemma percentage_one_third: "percentage_of (Suc 0) 3 = Inr 333"
  by (simp add: float_eval)

lemma value_counts_gender:
  "value_counts [Str s_male, Str s_female, Str s_male] = [(s_male, 2), (s_female, 1)]"
  by (simp add: value_counts_def non_null_def s_male_def s_female_def)

text \<open>
  Claim C8. For an enriched dataset of three records whose gender column is male, female,
  male, whose political-status column is party member, league member, masses, and whose
  hire-agreement column is signed (bilateral), signed (bilateral), signed (trilateral),
  \<open>generate_statistics\<close> returns \<open>total_count\<close> 3, \<open>bilateral_count\<close> 2,
  \<open>trilateral_count\<close> 1, and the gender distribution male with count 2 and 66.7 per
  cent, then female with count 1 and 33.3 per cent (percentages are held in tenths).
\<close>

theorem three_signee_scenario:
  assumes "generate_statistics df = Inr st"
    and "nrows df = 3"
    and "df_getitem df col_gender = Inr [Str s_male, Str s_female, Str s_male]"
    and "df_getitem df col_political =
           Inr [Str [0x4E2D, 0x5171, 0x515A, 0x5458], Str [0x5171, 0x9752, 0x56E2, 0x5458],
                Str [0x7FA4, 0x4F17]]"
    and "df_getitem df col_status =
           Inr [Str s_signed_bilateral, Str s_signed_bilateral, Str s_signed_trilateral]"
  shows "total_count st = 3 \<and> bilateral_count st = 2 \<and> trilateral_count st = 1
       \<and> map_of (distributions st) ''gender'' =
           Some [\<lparr>name = s_male, count = 2, percentage = 667\<rparr>,
                 \<lparr>name = s_female, count = 1, percentage = 333\<rparr>]"
proof -
  from generate_statistics_Inr [OF assms(1)] assms(5) obtain ds where
    ds: "dimension_loop df (nrows df) dimensions = Inr ds" "distributions st = ds"
    and tot: "total_count st = nrows df"
    and bi: "bilateral_count st = length (filter (str_contains s_bilateral)
               [Str s_signed_bilateral, Str s_signed_bilateral, Str s_signed_trilateral])"
    and tri: "trilateral_count st = length (filter (str_contains s_trilateral)
               [Str s_signed_bilateral, Str s_signed_bilateral, Str s_signed_trilateral])"
    by auto
  have b: "bilateral_count st = 2"
    unfolding bi
    by (simp add: str_contains_def s_bilateral_def s_signed_bilateral_def
        s_signed_trilateral_def asc_def)
  have t: "trilateral_count st = 1"
    unfolding tri
    by (simp add: str_contains_def s_trilateral_def s_signed_bilateral_def
        s_signed_trilateral_def asc_def)
  have "distinct (map fst dimensions)" "(''gender'', col_gender) \<in> set dimensions"
    by (simp_all add: dimensions_def)
  from dimension_loop_lookup [OF ds(1) this] assms(2,3) obtain es where
    es: "entries_of 3 (value_counts [Str s_male, Str s_female, Str s_male]) = Inr es"
    "map_of ds ''gender'' = Some es" by auto
  from es(1) have "es = [\<lparr>name = s_male, count = 2, percentage = 667\<rparr>,
                 \<lparr>name = s_female, count = 1, percentage = 333\<rparr>]"
    by (simp add: value_counts_gender percentage_two_thirds percentage_one_third)
  with es(2) ds(2) tot assms(2) b t show ?thesis by simp
qed

text \<open>The theorem at a roster with these three columns and the other columns filled in.\<close>

theorem three_signee_scenario_witness:
  "\<exists>st. generate_statistics three_signees = Inr st
      \<and> nrows three_signees = 3
      \<and> df_getitem three_signees col_gender = Inr [Str s_male, Str s_female, Str s_male]
      \<and> df_getitem three_signees col_political =
           Inr [Str [0x4E2D, 0x5171, 0x515A, 0x5458], Str [0x5171, 0x9752, 0x56E2, 0x5458],
                Str [0x7FA4, 0x4F17]]
      \<and> df_getitem three_signees col_status =
           Inr [Str s_signed_bilateral, Str s_signed_bilateral, Str s_signed_trilateral]
      \<and> total_count st = 3 \<and> bilateral_count st = 2 \<and> trilateral_count st = 1
      \<and> map_of (distributions st) ''gender'' =
           Some [\<lparr>name = s_male, count = 2, percentage = 667\<rparr>,
                 \<lparr>name = s_female, count = 1, percentage = 333\<rparr>]"
proof -
  from generate_statistics_ok [OF wf_three_signees cols_three_signees]
  obtain st where st: "generate_statistics three_signees = Inr st" by blast
  have n: "nrows three_signees = 3" by (simp add: three_signees_def)
  have g: "df_getitem three_signees col_gender = Inr [Str s_male, Str s_female, Str s_male]"
    by (simp add: df_getitem_def three_signees_def col_names)
  have p: "df_getitem three_signees col_political =
           Inr [Str [0x4E2D, 0x5171, 0x515A, 0x5458], Str [0x5171, 0x9752, 0x56E2, 0x5458],
                Str [0x7FA4, 0x4F17]]"
    by (simp add: df_getitem_def three_signees_def col_names)
  have a: "df_getitem three_signees col_status =
           Inr [Str s_signed_bilateral, Str s_signed_bilateral, Str s_signed_trilateral]"
    by (simp add: df_getitem_def three_signees_def col_names)
  from three_signee_scenario [OF st n g p a] st n g p a show ?thesis by blast
qed

lemma nrows_one_signee: "nrows (one_signee status school tag tier) = 1"
  by (simp add: one_signee_def)

lemma str_contains_iff: "str_contains m = (\<lambda>c. \<exists>t. c = Str t \<and> py_in m t)"
proof
  fix c show "str_contains m c = (\<exists>t. c = Str t \<and> py_in m t)"
    by (cases c) (simp_all add: str_contains_def)
qed

text \<open>
  Claim C10. \<open>bilateral_count\<close> and \<open>trilateral_count\<close> are independent counts of the
  records whose hire-agreement text contains the respective marker; they do not
  partition the dataset. A record whose text contains both markers is counted in both,
  so for some dataset the two counts add up to more than \<open>total_count\<close>; a record
  whose text contains neither marker is counted in neither.
\<close>

theorem agreement_counts_overlap:
  "(generate_statistics df = Inr st \<longrightarrow>
      (\<exists>statuses. df_getitem df col_status = Inr statuses
         \<and> total_count st = nrows df
         \<and> bilateral_count st =
             length (filter (\<lambda>c. \<exists>t. c = Str t \<and> py_in s_bilateral t) statuses)
         \<and> trilateral_count st =
             length (filter (\<lambda>c. \<exists>t. c = Str t \<and> py_in s_trilateral t) statuses)))
   \<and> (\<exists>d s. wf_df d \<and> generate_statistics d = Inr s
          \<and> bilateral_count s + trilateral_count s > total_count s)
   \<and> (\<exists>d s. wf_df d \<and> generate_statistics d = Inr s \<and> total_count s = 1
          \<and> bilateral_count s = 0 \<and> trilateral_count s = 0)"
proof -
  have formula: "\<exists>statuses. df_getitem d col_status = Inr statuses
         \<and> total_count s = nrows d
         \<and> bilateral_count s =
             length (filter (\<lambda>c. \<exists>t. c = Str t \<and> py_in s_bilateral t) statuses)
         \<and> trilateral_count s =
             length (filter (\<lambda>c. \<exists>t. c = Str t \<and> py_in s_trilateral t) statuses)"
    if "generate_statistics d = Inr s" for d s
    using generate_statistics_Inr [OF that] by (auto simp: str_contains_iff)
  let ?both = "one_signee (s_bilateral @ s_trilateral) s_tsinghua s_c9 s_c9"
  let ?none = "one_signee [0x5DF2, 0x7B7E, 0x7EA6] s_tsinghua s_c9 s_c9"
  from generate_statistics_ok [OF wf_one_signee cols_one_signee]
  obtain sb where sb: "generate_statistics ?both = Inr sb" by blast
  from formula [OF sb] have "total_count sb = 1" "bilateral_count sb = 1" "trilateral_count sb = 1"
    by (simp_all add: status_one_signee nrows_one_signee s_bilateral_def s_trilateral_def)
  with sb wf_one_signee have both: "\<exists>d s. wf_df d \<and> generate_statistics d = Inr s
          \<and> bilateral_count s + trilateral_count s > total_count s"
    by (intro exI [of _ ?both] exI [of _ sb]) simp
  from generate_statistics_ok [OF wf_one_signee cols_one_signee]
  obtain sn where sn: "generate_statistics ?none = Inr sn" by blast
  from formula [OF sn] have "total_count sn = 1" "bilateral_count sn = 0" "trilateral_count sn = 0"
    by (simp_all add: status_one_signee nrows_one_signee s_bilateral_def s_trilateral_def)
  with sn wf_one_signee have none: "\<exists>d s. wf_df d \<and> generate_statistics d = Inr s
          \<and> total_count s = 1 \<and> bilateral_count s = 0 \<and> trilateral_count s = 0"
    by (intro exI [of _ ?none] exI [of _ sn]) simp
  from formula both none show ?thesis by blast
qed

text \<open>The theorem at a one-record roster whose hire-agreement text holds both markers.\<close>

theorem agreement_counts_overlap_witness:
  "\<exists>s. generate_statistics (one_signee (s_bilateral @ s_trilateral) s_tsinghua s_c9 s_c9) = Inr s
      \<and> total_count s = 1 \<and> bilateral_count s = 1 \<and> trilateral_count s = 1"
proof -
  let ?d = "one_signee (s_bilateral @ s_trilateral) s_tsinghua s_c9 s_c9"
  from generate_statistics_ok [OF wf_one_signee cols_one_signee]
  obtain s where s: "generate_statistics ?d = Inr s" by blast
  from agreement_counts_overlap [of ?d s] s
  have "total_count s = 1 \<and> bilateral_count s = 1 \<and> trilateral_count s = 1"
    by (simp add: status_one_signee nrows_one_signee s_bilateral_def s_trilateral_def)
  with s show ?thesis by blast
qed

text \<open>
  Claim C9. The C9 entry of the special-institution tally is the number of records of
  tier C9 minus the number of records whose school is Tsinghua and minus the number
  whose school is Peking University. It can be negative: on the one-record enriched
  dataset whose school is Tsinghua and whose overseas-marked tag gives the tier "other
  overseas", \<open>generate_statistics\<close> returns \<open>-1\<close> for this entry.
\<close>

theorem c9_tally_can_be_negative:
  "(generate_statistics df = Inr st \<longrightarrow>
      (\<exists>schools tiers. df_getitem df col_school = Inr schools
         \<and> df_getitem df col_tier = Inr tiers
         \<and> map_of (special_institutions st) s_c9 =
             Some (int (count_list tiers (Str s_c9))
                   - int (count_list schools (Str s_tsinghua))
                   - int (count_list schools (Str s_peking)))))
   \<and> (\<exists>d s v. wf_df d
          \<and> df_getitem d col_tier = Inr (map Str (apply_rows classify_institution d))
          \<and> generate_statistics d = Inr s
          \<and> map_of (special_institutions s) s_c9 = Some v \<and> v < 0)"
proof -
  have formula: "\<exists>schools tiers. df_getitem d col_school = Inr schools
         \<and> df_getitem d col_tier = Inr tiers
         \<and> map_of (special_institutions s) s_c9 =
             Some (int (count_list tiers (Str s_c9))
                   - int (count_list schools (Str s_tsinghua))
                   - int (count_list schools (Str s_peking)))"
    if "generate_statistics d = Inr s" for d s
  proof -
    from generate_statistics_Inr [OF that] obtain special where
      sp: "calculate_special_institutions d = Inr special" "special_institutions s = special"
      by auto
    from calculate_special_Inr [OF sp(1)] obtain schools tiers where
      cols: "df_getitem d col_school = Inr schools" "df_getitem d col_tier = Inr tiers" by blast
    from special_institutions_value [OF cols] sp
    have "map_of (special_institutions s) s_c9 =
             Some (int (count_list tiers (Str s_c9))
                   - int (count_list schools (Str s_tsinghua))
                   - int (count_list schools (Str s_peking)))"
      by (simp add: special_schools_def school_names)
    with cols show ?thesis by blast
  qed
  let ?d = "one_signee s_signed_trilateral s_tsinghua s_overseas s_other_overseas"
  from generate_statistics_ok [OF wf_one_signee cols_one_signee]
  obtain s where s: "generate_statistics ?d = Inr s" by blast
  from formula [OF s]
  have "map_of (special_institutions s) s_c9 = Some (- 1)"
    by (simp add: school_one_signee tier_one_signee s_other_overseas_def school_names)
  moreover have "df_getitem ?d col_tier = Inr (map Str (apply_rows classify_institution ?d))"
    by (simp add: tier_one_signee classify_one_signee)
  ultimately have "\<exists>d s v. wf_df d
          \<and> df_getitem d col_tier = Inr (map Str (apply_rows classify_institution d))
          \<and> generate_statistics d = Inr s
          \<and> map_of (special_institutions s) s_c9 = Some v \<and> v < 0"
    using s wf_one_signee by (intro exI [of _ ?d] exI [of _ s] exI [of _ "- 1"]) simp
  with formula show ?thesis by blast
qed


text \<open>The theorem at that one-record dataset.\<close>

theorem c9_tally_can_be_negative_witness:
  "\<exists>s. generate_statistics
          (one_signee s_signed_trilateral s_tsinghua s_overseas s_other_overseas) = Inr s
      \<and> map_of (special_institutions s) s_c9 = Some (- 1)"
proof -
  let ?d = "one_signee s_signed_trilateral s_tsinghua s_overseas s_other_overseas"
  from generate_statistics_ok [OF wf_one_signee cols_one_signee]
  obtain s where s: "generate_statistics ?d = Inr s" by blast
  from c9_tally_can_be_negative [of ?d s] s
  have "map_of (special_institutions s) s_c9 = Some (- 1)"
    by (simp add: school_one_signee tier_one_signee s_other_overseas_def school_names)
  with s show ?thesis by blast
qed

subsection \<open>Enrichment\<close>

lemma getitem_setitem:
  "df_getitem (df_setitem d c v) c' = (if c' = c then Inr v else df_getitem d c')"
  by (simp add: df_getitem_def df_setitem_def update_conv')

lemma nrows_setitem: "nrows (df_setitem d c v) = nrows d"
  by (simp add: df_setitem_def)

lemma names_setitem:
  "map fst (columns (df_setitem d c v)) =
     (if c \<in> set (map fst (columns d)) then map fst (columns d) else map fst (columns d) @ [c])"
  by (simp add: df_setitem_def update_keys)

lemma set_update_cases: "kv \<in> set (AList.update k v al) \<Longrightarrow> kv = (k, v) \<or> kv \<in> set al"
  by (induction al) (auto split: if_splits)

lemma wf_setitem: "wf_df d \<Longrightarrow> length v = nrows d \<Longrightarrow> wf_df (df_setitem d c v)"
  by (auto simp: wf_df_def df_setitem_def distinct_update list_all_iff dest: set_update_cases)

lemma row_at_setitem: "c' \<noteq> c \<Longrightarrow> row_at (df_setitem d c v) i c' = row_at d i c'"
  by (simp add: row_at_def df_setitem_def update_conv')

lemma classify_cong:
  "row col_institution_category = row' col_institution_category
     \<Longrightarrow> classify_institution row = classify_institution row'"
  by (simp add: classify_institution_def)

lemma apply_rows_classify_setitem:
  "c \<noteq> col_institution_category \<Longrightarrow>
     apply_rows classify_institution (df_setitem d c v) = apply_rows classify_institution d"
  by (auto simp: apply_rows_def nrows_setitem intro!: classify_cong row_at_setitem)

lemma apply_cells_total:
  "(\<And>x. \<exists>y. f x = Inr y) \<Longrightarrow>
     \<exists>ys. apply_cells f xs = Inr ys \<and> list_all2 (\<lambda>x y. f x = Inr y) xs ys"
proof (induction xs)
  case Nil
  show ?case by simp
next
  case (Cons x xs)
  from Cons.prems obtain y where y: "f x = Inr y" by blast
  from Cons obtain ys where "apply_cells f xs = Inr ys" "list_all2 (\<lambda>x y. f x = Inr y) xs ys"
    by blast
  with y show ?case by simp
qed

lemma extract_province_total: "\<exists>p. extract_province x = Inr p"
  by (simp add: extract_province_def py_split_first Let_def split: option.splits)

lemma calculate_generation_returns: "\<exists>g. calculate_generation x = Inr g"
proof (cases x)
  case (Str t)
  then show ?thesis
    using py_int_cases [of "spec_leading_segment t"] generation_try_segment [of t]
    by (cases "t = []") (auto simp: calculate_generation_def generation_try_def)
next
  case NaN
  then show ?thesis by (simp add: calculate_generation_def generation_try_def)
next
  case PyNone
  then show ?thesis by (simp add: calculate_generation_def generation_try_def)
qed

lemma store_setitem_last:
  "store_setitem (s @ [d]) (length s) c v = s @ [df_setitem d c v]"
  by (simp add: store_setitem_def)

lemmas derived_distinct =
  col_is_overseas_def col_tier_def col_province_def col_generation_def
  col_institution_category_def col_origin_def col_birth_date_def asc_def


lemma column_neq:
  "col_is_overseas \<noteq> col_tier" "col_is_overseas \<noteq> col_province"
  "col_is_overseas \<noteq> col_generation" "col_is_overseas \<noteq> col_origin"
  "col_is_overseas \<noteq> col_birth_date" "col_is_overseas \<noteq> col_institution_category"
  "col_tier \<noteq> col_is_overseas" "col_tier \<noteq> col_province"
  "col_tier \<noteq> col_generation" "col_tier \<noteq> col_origin"
  "col_tier \<noteq> col_birth_date" "col_tier \<noteq> col_institution_category"
  "col_province \<noteq> col_is_overseas" "col_province \<noteq> col_tier"
  "col_province \<noteq> col_generation" "col_province \<noteq> col_origin"
  "col_province \<noteq> col_birth_date" "col_province \<noteq> col_institution_category"
  "col_generation \<noteq> col_is_overseas" "col_generation \<noteq> col_tier"
  "col_generation \<noteq> col_province" "col_generation \<noteq> col_origin"
  "col_generation \<noteq> col_birth_date" "col_generation \<noteq> col_institution_category"
  "col_origin \<noteq> col_is_overseas" "col_origin \<noteq> col_tier"
  "col_origin \<noteq> col_province" "col_origin \<noteq> col_generation"
  "col_origin \<noteq> col_birth_date" "col_origin \<noteq> col_institution_category"
  "col_birth_date \<noteq> col_is_overseas" "col_birth_date \<noteq> col_tier"
  "col_birth_date \<noteq> col_province" "col_birth_date \<noteq> col_generation"
  "col_birth_date \<noteq> col_origin" "col_birth_date \<noteq> col_institution_category"
  "col_institution_category \<noteq> col_is_overseas" "col_institution_category \<noteq> col_tier"
  "col_institution_category \<noteq> col_province" "col_institution_category \<noteq> col_generation"
  "col_institution_category \<noteq> col_origin" "col_institution_category \<noteq> col_birth_date"
  by (simp_all add: derived_distinct)

text \<open>
  Claim C6, amended. For a dataset of N records that has the three columns the
  enrichment reads, \<open>enhance_data\<close> returns a new dataset of N records in the same
  order and leaves every dataset of the store, the input among them, as it was. Every
  column of the input other than one bearing the name of a derived column holds the
  same values in the output; the output's columns are the input's, followed by those
  of the four derived columns (overseas flag, tier, province, cohort) that the input
  lacks; each derived column holds, record by record, the value derived from that
  record, a null cohort included. A column of the input that bears a derived column's
  name is overwritten with the derived values.
\<close>

theorem enhance_data_frame:
  assumes "df < length s" "wf_df (s ! df)"
    and "has_columns (s ! df) [col_institution_category, col_origin, col_birth_date]"
  shows "\<exists>out tags origins births provinces generations.
           enhance_data s df = Inr (s @ [out], length s)
         \<and> wf_df out \<and> nrows out = nrows (s ! df)
         \<and> map fst (columns out) =
             map fst (columns (s ! df))
             @ filter (\<lambda>c. c \<notin> set (map fst (columns (s ! df)))) derived_columns
         \<and> (\<forall>c. c \<notin> set derived_columns \<longrightarrow> df_getitem out c = df_getitem (s ! df) c)
         \<and> df_getitem (s ! df) col_institution_category = Inr tags
         \<and> df_getitem (s ! df) col_origin = Inr origins
         \<and> df_getitem (s ! df) col_birth_date = Inr births
         \<and> df_getitem out col_is_overseas = Inr (map is_overseas tags)
         \<and> df_getitem out col_tier =
             Inr (map (\<lambda>i. Str (classify_institution (row_at (s ! df) i))) [0..<nrows (s ! df)])
         \<and> df_getitem out col_province = Inr provinces
         \<and> list_all2 (\<lambda>x y. \<exists>p. extract_province x = Inr p \<and> y = Str p) origins provinces
         \<and> df_getitem out col_generation = Inr generations
         \<and> list_all2 (\<lambda>x y. \<exists>g. calculate_generation x = Inr g \<and> y = cell_of_option g)
               births generations"
proof -
  define d where "d = s ! df"
  from assms(3) have "map_of (columns d) col_institution_category \<noteq> None"
    "map_of (columns d) col_origin \<noteq> None" "map_of (columns d) col_birth_date \<noteq> None"
    by (simp_all add: d_def has_columns_def)
  from this [THEN df_getitem_present] obtain tags origins births where
    cols: "df_getitem d col_institution_category = Inr tags"
    "df_getitem d col_origin = Inr origins" "df_getitem d col_birth_date = Inr births"
    by blast
  from assms(2) have wf: "wf_df d" by (simp add: d_def)
  note len = df_getitem_length [OF wf]
  define v1 where "v1 = map is_overseas tags"
  define d1 where "d1 = df_setitem d col_is_overseas v1"
  define v2 where "v2 = map Str (apply_rows classify_institution d1)"
  define d2 where "d2 = df_setitem d1 col_tier v2"
  from apply_cells_total [of extract_province origins] extract_province_total
  obtain ps where ps: "apply_cells extract_province origins = Inr ps"
    "list_all2 (\<lambda>x y. extract_province x = Inr y) origins ps" by blast
  define v3 where "v3 = map Str ps"
  define d3 where "d3 = df_setitem d2 col_province v3"
  from apply_cells_total [of calculate_generation births] calculate_generation_returns
  obtain gs where gs: "apply_cells calculate_generation births = Inr gs"
    "list_all2 (\<lambda>x y. calculate_generation x = Inr y) births gs" by blast
  define v4 where "v4 = map cell_of_option gs"
  define d4 where "d4 = df_setitem d3 col_generation v4"
  have g2: "df_getitem d2 col_origin = Inr origins"
    by (simp add: d2_def d1_def getitem_setitem cols column_neq)
  have g3: "df_getitem d3 col_birth_date = Inr births"
    by (simp add: d3_def d2_def d1_def getitem_setitem cols column_neq)
  have run: "enhance_data s df = Inr (s @ [d4], length s)"
    using cols(1) g2 g3 ps(1) gs(1)
    by (simp add: enhance_data_def df_copy_def store_setitem_last d_def [symmetric]
        v1_def [symmetric] d1_def [symmetric] v2_def [symmetric] d2_def [symmetric]
        v3_def [symmetric] d3_def [symmetric] v4_def [symmetric] d4_def [symmetric])
  have l1: "length v1 = nrows d" by (simp add: v1_def len [OF cols(1)])
  have l2: "length v2 = nrows d" by (simp add: v2_def apply_rows_def d1_def nrows_setitem)
  have l3: "length v3 = nrows d"
    using list_all2_lengthD [OF ps(2)] by (simp add: v3_def len [OF cols(2)])
  have l4: "length v4 = nrows d"
    using list_all2_lengthD [OF gs(2)] by (simp add: v4_def len [OF cols(3)])
  have n: "nrows d4 = nrows d" by (simp add: d4_def d3_def d2_def d1_def nrows_setitem)
  have wf4: "wf_df d4"
    unfolding d4_def d3_def d2_def d1_def
    by (intro wf_setitem wf) (simp_all add: nrows_setitem l1 l2 l3 l4)
  have names: "map fst (columns d4) =
      map fst (columns d) @ filter (\<lambda>c. c \<notin> set (map fst (columns d))) derived_columns"
    by (simp add: d4_def d3_def d2_def d1_def names_setitem derived_columns_def column_neq)
  have other: "df_getitem d4 c = df_getitem d c" if "c \<notin> set derived_columns" for c
    using that by (simp add: d4_def d3_def d2_def d1_def getitem_setitem derived_columns_def)
  have o1: "df_getitem d4 col_is_overseas = Inr (map is_overseas tags)"
    by (simp add: d4_def d3_def d2_def d1_def getitem_setitem v1_def column_neq)
  have "apply_rows classify_institution d1 = apply_rows classify_institution d"
    unfolding d1_def by (rule apply_rows_classify_setitem) (simp add: column_neq)
  then have o2: "df_getitem d4 col_tier =
      Inr (map (\<lambda>i. Str (classify_institution (row_at d i))) [0..<nrows d])"
    by (simp add: d4_def d3_def d2_def getitem_setitem v2_def column_neq apply_rows_def
        comp_def)
  have o3: "df_getitem d4 col_province = Inr v3"
    by (simp add: d4_def d3_def getitem_setitem column_neq)
  have r3: "list_all2 (\<lambda>x y. \<exists>p. extract_province x = Inr p \<and> y = Str p) origins v3"
    using ps(2) by (auto simp: v3_def list_all2_map2 elim!: list_all2_mono)
  have o4: "df_getitem d4 col_generation = Inr v4"
    by (simp add: d4_def getitem_setitem)
  have r4: "list_all2 (\<lambda>x y. \<exists>g. calculate_generation x = Inr g \<and> y = cell_of_option g)
      births v4"
    using gs(2) by (auto simp: v4_def list_all2_map2 elim!: list_all2_mono)
  from run wf4 n names other cols o1 o2 o3 r3 o4 r4 show ?thesis
    unfolding d_def by blast
qed


lemma generation_2001: "calculate_generation (Str (asc ''2001-07-15'')) = Inr (Some (asc ''00'' @ [0x540E]))"
  by (simp add: generation_eval)

lemma province_changsha:
  "extract_province (Str [0x6E56, 0x5357, 0x957F, 0x6C99]) = Inr [0x6E56, 0x5357]"
  by (simp add: extract_province_def province_map_def)

lemma classify_985:
  "row col_institution_category = Some (Str (asc ''985'')) \<Longrightarrow> classify_institution row = asc ''985''"
  by (simp add: classify_institution_def categories_def s_overseas_def s_c9_def asc_def)

text \<open>
  Claim C6 as stated fails: on a roster that already has a column named like the cohort
  column, the output does not hold that column's values (the 90 cohort, entered by
  hand, becomes the 00 cohort derived from the birth date), and only three columns are
  added.
\<close>

theorem enhance_data_overwrites_column:
  "enhance_data [relabelled_roster] 0 = Inr ([relabelled_roster, relabelled_enriched], 1)
   \<and> df_getitem relabelled_roster col_generation = Inr [Str (asc ''90'' @ [0x540E])]
   \<and> df_getitem relabelled_enriched col_generation = Inr [Str (asc ''00'' @ [0x540E])]
   \<and> df_getitem relabelled_enriched col_generation \<noteq> df_getitem relabelled_roster col_generation"
proof -
  have tags: "df_getitem relabelled_roster col_institution_category = Inr [Str (asc ''985'')]"
    by (simp add: df_getitem_def relabelled_roster_def column_neq)
  have ov: "is_overseas (Str (asc ''985'')) = Str s_no"
    by (simp add: is_overseas_def s_overseas_def asc_def)
  let ?d1 = "df_setitem relabelled_roster col_is_overseas [Str s_no]"
  have rows: "apply_rows classify_institution ?d1 = [asc ''985'']"
    by (simp add: apply_rows_def relabelled_roster_def df_setitem_def row_at_def column_neq
        classify_985)
  let ?d2 = "df_setitem ?d1 col_tier [Str (asc ''985'')]"
  have "df_getitem relabelled_roster col_origin = Inr [Str [0x6E56, 0x5357, 0x957F, 0x6C99]]"
    by (simp add: df_getitem_def relabelled_roster_def column_neq)
  then have origins: "df_getitem ?d2 col_origin = Inr [Str [0x6E56, 0x5357, 0x957F, 0x6C99]]"
    by (simp add: getitem_setitem column_neq)
  let ?d3 = "df_setitem ?d2 col_province [Str [0x6E56, 0x5357]]"
  have "df_getitem relabelled_roster col_birth_date = Inr [Str (asc ''2001-07-15'')]"
    by (simp add: df_getitem_def relabelled_roster_def column_neq)
  then have births: "df_getitem ?d3 col_birth_date = Inr [Str (asc ''2001-07-15'')]"
    by (simp add: getitem_setitem column_neq)
  have out: "df_setitem ?d3 col_generation [Str (asc ''00'' @ [0x540E])] = relabelled_enriched"
    by (simp add: df_setitem_def relabelled_roster_def relabelled_enriched_def column_neq)
  have run: "enhance_data [relabelled_roster] 0 = Inr ([relabelled_roster, relabelled_enriched], 1)"
    using store_setitem_last [of "[relabelled_roster]"]
    by (simp add: enhance_data_def df_copy_def tags ov rows origins province_changsha births
        generation_2001 cell_of_option_def out)
  have a: "df_getitem relabelled_roster col_generation = Inr [Str (asc ''90'' @ [0x540E])]"
    by (simp add: df_getitem_def relabelled_roster_def column_neq)
  have b: "df_getitem relabelled_enriched col_generation = Inr [Str (asc ''00'' @ [0x540E])]"
    by (simp add: df_getitem_def relabelled_enriched_def column_neq)
  have "asc ''90'' \<noteq> asc ''00''" by (simp add: asc_def)
  with run a b show ?thesis by simp
qed


text \<open>
  The amended theorem at a raw roster of one signee born in 1988: the record is kept,
  with a null cohort, and the school column is unchanged.
\<close>

theorem enhance_data_frame_witness:
  "0 < length [raw_signee] \<and> wf_df ([raw_signee] ! 0)
   \<and> has_columns ([raw_signee] ! 0) [col_institution_category, col_origin, col_birth_date]
   \<and> (\<exists>out. enhance_data [raw_signee] 0 = Inr ([raw_signee, out], 1)
          \<and> nrows out = 1
          \<and> df_getitem out col_school = Inr [Str s_tsinghua]
          \<and> df_getitem out col_generation = Inr [PyNone])"
proof -
  have h1: "0 < length [raw_signee]" by simp
  have h2: "wf_df ([raw_signee] ! 0)" by (simp add: wf_df_def raw_signee_def col_names)
  have h3: "has_columns ([raw_signee] ! 0) [col_institution_category, col_origin, col_birth_date]"
    by (simp add: has_columns_def raw_signee_def col_names)
  from enhance_data_frame [OF h1 h2 h3] obtain out births generations where
    run: "enhance_data [raw_signee] 0 = Inr ([raw_signee] @ [out], length [raw_signee])"
    and n: "nrows out = nrows ([raw_signee] ! 0)"
    and other: "\<forall>c. c \<notin> set derived_columns \<longrightarrow> df_getitem out c = df_getitem ([raw_signee] ! 0) c"
    and b: "df_getitem ([raw_signee] ! 0) col_birth_date = Inr births"
    and g: "df_getitem out col_generation = Inr generations"
    and rel: "list_all2 (\<lambda>x y. \<exists>g. calculate_generation x = Inr g \<and> y = cell_of_option g)
               births generations"
    by blast
  from b have births: "births = [Str (asc ''1988-03-01'')]"
    by (simp add: df_getitem_def raw_signee_def col_names)
  have "calculate_generation (Str (asc ''1988-03-01'')) = Inr None"
    by (simp add: generation_eval)
  with rel births have "generations = [PyNone]"
    by (auto simp: list_all2_Cons1 cell_of_option_def)
  moreover have "col_school \<notin> set derived_columns"
    by (simp add: derived_columns_def col_names)
  with other have "df_getitem out col_school = Inr [Str s_tsinghua]"
    by (simp add: df_getitem_def raw_signee_def col_names)
  moreover from n have "nrows out = 1" by (simp add: raw_signee_def)
  ultimately show ?thesis using run g h1 h2 h3 by simp
qed

subsection \<open>Report composer\<close>

lemma political_text_ok: "3 \<le> length ps \<Longrightarrow> \<exists>t. fstring (political_text ps) = Inr t"
proof -
  assume "3 \<le> length ps"
  then have "ps \<noteq> []" "Suc 0 < length ps" "2 < length ps" by auto
  then show ?thesis
    by (simp add: political_text_def item_count_def item_percentage_def py_getitem_def)
qed

lemma gender_text_short: "length es < 2 \<Longrightarrow> fstring (gender_text es) = Inl IndexError"
proof (cases es)
  case Nil
  then show ?thesis
    by (simp add: gender_text_def item_count_def item_percentage_def py_getitem_def)
next
  case (Cons e es')
  assume "length es < 2"
  with Cons have "es' = []" by simp
  with Cons show ?thesis
    by (simp add: gender_text_def item_count_def item_percentage_def py_getitem_def)
qed

lemma image_step_ok: "\<exists>r'. image_step imgs key label r = Inr r'"
  by (simp add: image_step_def split: option.splits)

lemma ranked_text_total: "\<exists>t. fstring (ranked_text none data) = Inr t"
  by (simp add: ranked_text_def ranked_item_def item_name_def item_count_def
      item_percentage_def py_getitem_def)

lemma report_gender_short:
  assumes "map_of (distributions st) ''political_status'' = Some ps" "3 \<le> length ps"
    and "map_of (distributions st) ''gender'' = Some es" "length es < 2"
  shows "generate_markdown_report day time st imgs = Inl IndexError"
proof -
  from political_text_ok [OF assms(2)] obtain t where t: "fstring (political_text ps) = Inr t"
    by blast
  define pimgs where "pimgs = map (\<lambda>(key, image_data). (key, process_chart_image image_data)) imgs"
  obtain r' where r': "\<And>r. r = (t_title @ t_overall_heading @ t_overall_lead @ day @ t_signed_total @
      str_of_int (int (total_count st)) @ t_of_which_bilateral @
      str_of_int (int (bilateral_count st)) @ t_trilateral_agreements @
      str_of_int (int (trilateral_count st)) @ t_people_stop @ t_signees_heading
      @ t_political_heading @ t) \<Longrightarrow> image_step pimgs ''political_status'' t_political_image r = Inr r'"
    using image_step_ok by blast
  show ?thesis
    using assms(1,3) t gender_text_short [OF assms(4)] r'
    by (simp add: generate_markdown_report_def pimgs_def [symmetric] append_text_def
        append_fstring_def section_step_def)
qed


lemma wf_three_men: "wf_df three_men"
  unfolding three_men_def by (rule wf_setitem [OF wf_three_signees]) (simp add: three_signees_def)

lemma cols_three_men: "has_columns three_men enriched_columns"
  using cols_three_signees
  by (simp add: has_columns_def three_men_def df_setitem_def update_conv' list_all_iff)

lemma entries_of_length: "entries_of n kvs = Inr es \<Longrightarrow> length es = length kvs"
  using entries_of_names [of n kvs es] by (metis length_map)

text \<open>
  Claim C7 asks that \<open>generate_markdown_report\<close> degrade gracefully, with a shorter
  sentence or a placeholder and never an out-of-range indexing fault, when a
  distribution has fewer entries than its sentence expects. The major-type and province
  sections do so (\<open>ranked_text_total\<close>); the five other sections index positions 0, 1
  and 2 without a test. On the snapshot that \<open>generate_statistics\<close> returns for three
  signees who are all men, the gender distribution has a single entry and the call ends
  with \<open>IndexError\<close>, whatever the date and the chart images: no report is produced.
\<close>

theorem report_single_gender_raises:
  "\<exists>st. generate_statistics three_men = Inr st
      \<and> map_of (distributions st) ''gender'' =
          Some [\<lparr>name = s_male, count = 3, percentage = 1000\<rparr>]
      \<and> generate_markdown_report current_day current_time st chart_images = Inl IndexError"
proof -
  from generate_statistics_ok [OF wf_three_men cols_three_men]
  obtain st where st: "generate_statistics three_men = Inr st" by blast
  from generate_statistics_Inr [OF st] obtain ds where
    ds: "dimension_loop three_men (nrows three_men) dimensions = Inr ds" "distributions st = ds"
    by auto
  have dist: "distinct (map fst dimensions)" by (simp add: dimensions_def)
  have n: "nrows three_men = 3" by (simp add: three_men_def nrows_setitem three_signees_def)
  have g: "df_getitem three_men col_gender = Inr [Str s_male, Str s_male, Str s_male]"
    by (simp add: three_men_def getitem_setitem)
  have p: "df_getitem three_men col_political =
             Inr [Str [0x4E2D, 0x5171, 0x515A, 0x5458], Str [0x5171, 0x9752, 0x56E2, 0x5458],
                  Str [0x7FA4, 0x4F17]]"
  proof -
    have "col_political \<noteq> col_gender" by (simp add: col_names)
    moreover have "df_getitem three_signees col_political =
             Inr [Str [0x4E2D, 0x5171, 0x515A, 0x5458], Str [0x5171, 0x9752, 0x56E2, 0x5458],
                  Str [0x7FA4, 0x4F17]]"
      by (simp add: df_getitem_def three_signees_def col_names)
    ultimately show ?thesis by (simp add: three_men_def getitem_setitem)
  qed
  have "(''gender'', col_gender) \<in> set dimensions" by (simp add: dimensions_def)
  from dimension_loop_lookup [OF ds(1) dist this] g n obtain es where
    es: "entries_of 3 (value_counts [Str s_male, Str s_male, Str s_male]) = Inr es"
    "map_of ds ''gender'' = Some es" by auto
  have pct: "percentage_of 3 3 = Inr 1000" by (simp add: float_eval)
  have "value_counts [Str s_male, Str s_male, Str s_male] = [(s_male, 3)]"
    by (simp add: value_counts_def non_null_def s_male_def numeral_3_eq_3)
  with es(1) have es_val: "es = [\<lparr>name = s_male, count = 3, percentage = 1000\<rparr>]"
    by (simp add: pct)
  have "(''political_status'', col_political) \<in> set dimensions" by (simp add: dimensions_def)
  from dimension_loop_lookup [OF ds(1) dist this] p n obtain ps where
    ps: "entries_of 3 (value_counts [Str [0x4E2D, 0x5171, 0x515A, 0x5458],
           Str [0x5171, 0x9752, 0x56E2, 0x5458], Str [0x7FA4, 0x4F17]]) = Inr ps"
    "map_of ds ''political_status'' = Some ps" by auto
  from entries_of_length [OF ps(1)] have "length ps = 3"
    by (simp add: value_counts_def non_null_def)
  with report_gender_short [of st ps es current_day current_time chart_images] ps(2) es(2) ds(2) es_val
  have "generate_markdown_report current_day current_time st chart_images = Inl IndexError"
    by simp
  with st es(2) ds(2) es_val show ?thesis by auto
qed

end
